theory Spec2Isabelle
  imports Complex_Main
begin

section \<open>GraphicMark (src/data/base/mark/GraphicMark.js): data model\<close>

text \<open>
  A JavaScript number is modelled by the \<open>real\<close> it denotes: pixels, prices, data
  indexes and timestamps are finite doubles, without NaN and infinities. An optional
  field (\<open>undefined\<close> or \<open>null\<close>) is an \<open>option\<close>; where the code treats \<open>null\<close>
  and \<open>undefined\<close> differently the field is a \<open>js_optional\<close>.

  Isabelle identifiers cannot start with an underscore, so the private members
  \<open>_tpPoints\<close>, \<open>_drawStep\<close>, \<open>_drawLines\<close>, ... are written without it.
\<close>

text \<open>
  The engine computes \<open>+\<close>, \<open>-\<close>, \<open>*\<close> and \<open>/\<close> on doubles: the result is the double
  nearest the exact one, which the reals do not give. Wherever the code computes with
  numbers that are not known to be small integers, the operation is taken from these
  parameters. \<open>exact_ops\<close> are the exact operations: they give the engine's result
  wherever the exact result is itself a double.
\<close>

record number_ops =
  num_plus :: "real \<Rightarrow> real \<Rightarrow> real"
  num_minus :: "real \<Rightarrow> real \<Rightarrow> real"
  num_times :: "real \<Rightarrow> real \<Rightarrow> real"
  num_divide :: "real \<Rightarrow> real \<Rightarrow> real"

definition exact_ops :: number_ops where
  "exact_ops =
     \<lparr> num_plus = (\<lambda>a b. a + b), num_minus = (\<lambda>a b. a - b),
       num_times = (\<lambda>a b. a * b), num_divide = (\<lambda>a b. a / b) \<rparr>"

datatype 'a js_optional = Undefined | Null | Defined 'a

text \<open>\<open>GRAPHIC_MARK_DRAW_STEP_START = 1\<close> and \<open>GRAPHIC_MARK_DRAW_STEP_FINISHED = -1\<close>.\<close>

definition GRAPHIC_MARK_DRAW_STEP_START :: int where
  "GRAPHIC_MARK_DRAW_STEP_START = 1"

definition GRAPHIC_MARK_DRAW_STEP_FINISHED :: int where
  "GRAPHIC_MARK_DRAW_STEP_FINISHED = - 1"

text \<open>\<open>HoverType = { OTHER: 'other', POINT: 'point', NONE: 'none' }\<close>.\<close>

datatype HoverType = OTHER | POINT | NONE

text \<open>
  \<open>GraphicMarkDrawType = { LINE: 'line', TEXT: 'text' }\<close>. The \<open>type\<close> of a drawable
  group comes from an extension hook and is compared by \<open>switch\<close> with a default branch,
  so it stays a string.
\<close>

definition GraphicMarkDrawType_LINE :: string where
  "GraphicMarkDrawType_LINE = ''line''"

definition GraphicMarkDrawType_TEXT :: string where
  "GraphicMarkDrawType_TEXT = ''text''"

text \<open>\<open>LineType = { COMMON: 0, HORIZONTAL: 1, VERTICAL: 2 }\<close>.\<close>

datatype LineType = COMMON | HORIZONTAL | VERTICAL

text \<open>A pixel position \<open>{ x, y }\<close>.\<close>

record coordinate =
  cx :: real
  cy :: real

text \<open>
  A placed point \<open>{ timestamp, price, dataIndex }\<close>. Every point this class stores is
  built from \<open>xAxis.convertFromPixel\<close> (a number), \<open>chartData.dataIndexToTimestamp\<close>
  (which may give nothing) and \<open>yAxis.convertFromPixel\<close> (a number).
\<close>

record tp_point =
  timestamp :: "real option"
  price :: real
  dataIndex :: real

text \<open>
  An element of a group's \<open>dataSource\<close>: for a line group an array of pixel positions,
  for a text group an object \<open>{ x, y, text }\<close>.
\<close>

datatype data_item = Points "coordinate list" | Label real real string

text \<open>
  A drawable group \<open>{ type, isDraw, isCheck, dataSource }\<close> as returned by
  \<open>createGraphicOptions\<close>; \<open>isDraw\<close>, \<open>isCheck\<close> and \<open>dataSource\<close> may be absent.
  The destructuring default \<open>dataSource = []\<close> replaces \<open>undefined\<close> and not \<open>null\<close>.
\<close>

record graphic_option =
  gtype :: string
  isDraw :: "bool option"
  isCheck :: "bool option"
  dataSource :: "data_item list js_optional"

definition defaultEmpty :: "data_item list js_optional \<Rightarrow> data_item list js_optional" where
  "defaultEmpty ds = (case ds of Undefined \<Rightarrow> Defined [] | Null \<Rightarrow> Null | Defined d \<Rightarrow> Defined d)"

record viewport =
  vwidth :: real
  vheight :: real

record precision =
  pprice :: real
  pvolume :: real

text \<open>The style configuration \<open>styleOptions().graphicMark\<close>: \<open>line\<close>, \<open>text\<close>, \<open>point\<close>.\<close>

record line_options =
  line_color :: string
  line_size :: real

record text_options =
  text_weight :: string
  text_size :: real
  text_family :: string
  text_color :: string
  text_marginLeft :: real
  text_marginBottom :: real

record point_options =
  point_radius :: real
  point_backgroundColor :: string
  point_borderColor :: string
  point_borderSize :: real
  point_activeRadius :: real
  point_activeBackgroundColor :: string
  point_activeBorderColor :: string
  point_activeBorderSize :: real

record mark_options =
  opt_line :: line_options
  opt_text :: text_options
  opt_point :: point_options

section \<open>The 2D drawing context\<close>

text \<open>
  A \<open>CanvasRenderingContext2D\<close> is the sequence of calls made on it, oldest first.
  The renderers of renderer/line and renderer/circle, the figures of the view layer and
  the helper \<open>lineTo\<close> of extension/figure/line are not part of the sources at hand:
  a call to one of them is recorded with its arguments. \<open>renderLine(ctx, f)\<close> is
  recorded with the calls its callback \<open>f\<close> makes. The attributes of a circle are
  \<open>x\<close>, \<open>y\<close> and \<open>r\<close>; \<open>CircleAttrsNotFinite\<close> is a circle whose \<open>r\<close> is NaN or an
  infinity.
\<close>

record gradient =
  grad_x0 :: real
  grad_y0 :: real
  grad_x1 :: real
  grad_y1 :: real
  colorStops :: "(real \<times> string) list"

datatype paint = Color string | GradientPaint gradient

datatype figure_attrs =
    LineAttrs "coordinate list"
  | CircleAttrs real real real
  | CircleAttrsNotFinite real real

datatype figure_styles = LineStyles string real bool | FillStyles string string

record figure =
  fig_name :: string
  fig_attrs :: figure_attrs
  fig_styles :: figure_styles

datatype canvas_op =
    SetStrokeStyle string
  | SetLineWidth real
  | SetFont string real string
  | SetFillStyle paint
  | BeginPath
  | MoveTo real real
  | LineTo real real
  | Stroke
  | ClosePath
  | Fill
  | FillText string real real
  | FillTextUndefined
  | ClearRect real real real real
  | Scale real real
  | RenderLine "canvas_op list"
  | RenderHorizontalLine real real real
  | RenderVerticalLine real real real
  | RenderStrokeFillCircle string string real coordinate real
  | FigureDraw figure
  | PathLineTo "coordinate list" bool

type_synonym canvas = "canvas_op list"

text \<open>A thrown JavaScript exception.\<close>

datatype js_error = TypeError


text \<open>
  The collaborators a mark holds (\<open>_chartData\<close>, \<open>_xAxis\<close>, \<open>_yAxis\<close>) and the
  imported helper \<open>checkPointOnCircle\<close> (extension/mark/graphicHelper, not part of the
  sources at hand) are parameters.
\<close>

record chart_env =
  xConvertToPixel :: "real \<Rightarrow> real"
  xConvertFromPixel :: "real \<Rightarrow> real"
  yConvertToPixel :: "real \<Rightarrow> real"
  yConvertFromPixel :: "real \<Rightarrow> real"
  timestampToDataIndex :: "real \<Rightarrow> real"
  dataIndexToTimestamp :: "real \<Rightarrow> real option"
  xAxisWidth :: real
  yAxisHeight :: real
  pricePrecision :: real
  volumePrecision :: real
  graphicMark :: mark_options
  checkPointOnCircle :: "coordinate \<Rightarrow> real \<Rightarrow> coordinate \<Rightarrow> bool"

text \<open>
  A JavaScript array with holes: \<open>None\<close> is an index below \<open>length\<close> that was never
  assigned (reading it gives \<open>undefined\<close>). Assigning at or beyond \<open>length\<close> extends the
  array, leaving holes in between.
\<close>

definition array_set :: "'a option list \<Rightarrow> nat \<Rightarrow> 'a \<Rightarrow> 'a option list" where
  "array_set xs i v =
     (if i < length xs then xs[i := Some v]
      else xs @ replicate (i - length xs) None @ [Some v])"

text \<open>
  The extension hooks, empty in \<open>GraphicMark\<close> and overridden by concrete marks. A hook
  that receives \<open>_tpPoints\<close> may change the array, so it returns it; \<open>drawExtend\<close>
  returns the context after its own drawing. The axis objects a hook is handed are the
  collaborators it already knows.
\<close>

record mark_hooks =
  checkMousePointOn :: "data_item \<Rightarrow> coordinate \<Rightarrow> bool"
  createGraphicOptions ::
    "tp_point option list \<Rightarrow> coordinate option list \<Rightarrow> viewport \<Rightarrow> precision
       \<Rightarrow> graphic_option list option"
  performMouseMoveForDrawing ::
    "int \<Rightarrow> tp_point option list \<Rightarrow> tp_point \<Rightarrow> tp_point option list"
  performMousePressedMove ::
    "tp_point option list \<Rightarrow> int \<Rightarrow> tp_point \<Rightarrow> tp_point option list"
  drawExtend ::
    "canvas \<Rightarrow> graphic_option list \<Rightarrow> mark_options \<Rightarrow> viewport \<Rightarrow> precision \<Rightarrow> canvas"

text \<open>The hooks of \<open>GraphicMark\<close> itself: empty bodies, returning \<open>undefined\<close>.\<close>

definition GraphicMark_hooks :: mark_hooks where
  "GraphicMark_hooks =
     \<lparr> checkMousePointOn = (\<lambda>points mousePoint. False),
       createGraphicOptions = (\<lambda>tpPoints xyPoints vp pr. None),
       performMouseMoveForDrawing = (\<lambda>step tpPoints tpPoint. tpPoints),
       performMousePressedMove = (\<lambda>tpPoints pressedPointIndex tpPoint. tpPoints),
       drawExtend = (\<lambda>ctx graphicOptions markOptions vp pr. ctx) \<rparr>"

text \<open>
  The mark's own state. \<open>tpPoints\<close> holds the array elements of \<open>_tpPoints\<close>;
  \<open>tpProps\<close> holds what an assignment \<open>_tpPoints[k] = v\<close> with a negative \<open>k\<close> stores:
  a property of the array object that is no element and does not count in \<open>length\<close>
  (the latest assignment first).
\<close>

record graphic_mark =
  totalStep :: int
  drawStep :: int
  tpPoints :: "tp_point option list"
  tpProps :: "(int \<times> tp_point) list"
  hoverType :: HoverType
  hoverIndex :: int

text \<open>
  The constructor. The fields \<open>id\<close> and \<open>name\<close> are stored and never read by the
  class; the collaborators are the \<open>chart_env\<close> each operation takes.
\<close>

definition new_GraphicMark :: "int \<Rightarrow> graphic_mark" where
  "new_GraphicMark steps =
     \<lparr> totalStep = steps, drawStep = GRAPHIC_MARK_DRAW_STEP_START, tpPoints = [],
       tpProps = [], hoverType = NONE, hoverIndex = - 1 \<rparr>"

subsection \<open>Pixel resolution\<close>

text \<open>
  \<open>_timestampOrDataIndexToPointX\<close>: the condition \<open>timestamp ? ... : ...\<close> is false for
  an absent timestamp and for the number 0.
\<close>

definition timestampOrDataIndexToPointX :: "chart_env \<Rightarrow> tp_point \<Rightarrow> real" where
  "timestampOrDataIndexToPointX env p =
     (case timestamp p of
        None \<Rightarrow> xConvertToPixel env (dataIndex p)
      | Some t \<Rightarrow>
          if t \<noteq> 0 then xConvertToPixel env (timestampToDataIndex env t)
          else xConvertToPixel env (dataIndex p))"

text \<open>
  The pixel position both \<open>draw\<close> and \<open>checkMousePointOnGraphic\<close> compute for a
  placed point.
\<close>

definition toXyPoint :: "chart_env \<Rightarrow> tp_point \<Rightarrow> coordinate" where
  "toXyPoint env p =
     \<lparr> cx = timestampOrDataIndexToPointX env p, cy = yConvertToPixel env (price p) \<rparr>"

subsection \<open>Drawing\<close>

definition getLineType :: "coordinate \<Rightarrow> coordinate \<Rightarrow> LineType" where
  "getLineType point1 point2 =
     (if cx point1 = cx point2 then VERTICAL
      else if cy point1 = cy point2 then HORIZONTAL
      else COMMON)"

text \<open>
  One run of the callback of \<open>lines.forEach\<close> in \<open>_drawLines\<close>. It reads
  \<open>points[0]\<close> and \<open>points[1]\<close> and then their \<open>x\<close>: on an array with fewer than two
  positions, or on a text object, one of them is \<open>undefined\<close> and \<open>getLineType\<close>
  throws a TypeError (\<open>None\<close>).
\<close>

fun drawLine :: "data_item \<Rightarrow> canvas_op option" where
  "drawLine (Points (p0 # p1 # rest)) =
     Some (case getLineType p0 p1 of
             COMMON \<Rightarrow>
               RenderLine [BeginPath, MoveTo (cx p0) (cy p0), LineTo (cx p1) (cy p1),
                           Stroke, ClosePath]
           | HORIZONTAL \<Rightarrow> RenderHorizontalLine (cy p0) (cx p0) (cx p1)
           | VERTICAL \<Rightarrow> RenderVerticalLine (cx p0) (cy p0) (cy p1))"
| "drawLine (Points ps) = None"
| "drawLine (Label lx ly t) = None"

fun forEach_drawLine :: "data_item list \<Rightarrow> canvas \<Rightarrow> canvas \<times> js_error option" where
  "forEach_drawLine [] ctx = (ctx, None)"
| "forEach_drawLine (d # ds) ctx =
     (case drawLine d of
        None \<Rightarrow> (ctx, Some TypeError)
      | Some op \<Rightarrow> forEach_drawLine ds (ctx @ [op]))"

text \<open>
  \<open>_drawLines(ctx, lines, markOptions)\<close>: the context reached and what was thrown.
  \<open>lines.forEach\<close> throws a TypeError where \<open>lines\<close> is \<open>null\<close>.
\<close>

definition drawLines ::
  "canvas \<Rightarrow> data_item list js_optional \<Rightarrow> mark_options \<Rightarrow> canvas \<times> js_error option"
  where
  "drawLines ctx lines markOptions =
     (let ctx1 = ctx @ [SetStrokeStyle (line_color (opt_line markOptions)),
                        SetLineWidth (line_size (opt_line markOptions))]
      in case lines of
           Defined ls \<Rightarrow> forEach_drawLine ls ctx1
         | Null \<Rightarrow> (ctx1, Some TypeError)
         | Undefined \<Rightarrow> (ctx1, Some TypeError))"

text \<open>
  \<open>_drawText(ctx, texts, markOptions)\<close>, which no method calls. Destructuring
  \<open>{ x, y, text }\<close> from an array of positions gives three times \<open>undefined\<close>:
  \<open>fillText(undefined, NaN, NaN)\<close>. \<open>texts.forEach\<close> throws a TypeError where
  \<open>texts\<close> is \<open>null\<close>.
\<close>

fun drawTextItem :: "number_ops \<Rightarrow> mark_options \<Rightarrow> data_item \<Rightarrow> canvas_op" where
  "drawTextItem ops markOptions (Label lx ly t) =
     FillText t (num_plus ops lx (text_marginLeft (opt_text markOptions)))
                (num_minus ops ly (text_marginBottom (opt_text markOptions)))"
| "drawTextItem ops markOptions (Points ps) = FillTextUndefined"

definition drawText ::
  "number_ops \<Rightarrow> canvas \<Rightarrow> data_item list js_optional \<Rightarrow> mark_options
     \<Rightarrow> canvas \<times> js_error option" where
  "drawText ops ctx texts markOptions =
     (let ctx1 = ctx @ [SetFont (text_weight (opt_text markOptions))
                          (text_size (opt_text markOptions))
                          (text_family (opt_text markOptions)),
                        SetFillStyle (Color (text_color (opt_text markOptions)))]
      in case texts of
           Defined ts \<Rightarrow> (ctx1 @ map (drawTextItem ops markOptions) ts, None)
         | Null \<Rightarrow> (ctx1, Some TypeError)
         | Undefined \<Rightarrow> (ctx1, Some TypeError))"

text \<open>
  The callback of \<open>graphicOptions.forEach\<close> in \<open>draw\<close>, with the default
  \<open>dataSource = []\<close>; \<open>isValid\<close> (utils/typeChecks) is "neither null nor undefined".
\<close>

definition drawGraphicOption ::
  "mark_options \<Rightarrow> graphic_option \<Rightarrow> canvas \<Rightarrow> canvas \<times> js_error option" where
  "drawGraphicOption markOptions g ctx =
     (let ds = defaultEmpty (dataSource g) in
      if isDraw g = None \<or> isDraw g = Some True then
        (if gtype g = GraphicMarkDrawType_LINE then drawLines ctx ds markOptions
         else if gtype g = GraphicMarkDrawType_TEXT then drawLines ctx ds markOptions
         else (ctx, None))
      else (ctx, None))"

fun forEach_graphicOption ::
  "mark_options \<Rightarrow> graphic_option list \<Rightarrow> canvas \<Rightarrow> canvas \<times> js_error option" where
  "forEach_graphicOption markOptions [] ctx = (ctx, None)"
| "forEach_graphicOption markOptions (g # gs) ctx =
     (case drawGraphicOption markOptions g ctx of
        (ctx', Some e) \<Rightarrow> (ctx', Some e)
      | (ctx', None) \<Rightarrow> forEach_graphicOption markOptions gs ctx')"

text \<open>
  The callback of \<open>xyPoints.forEach\<close> at the end of \<open>draw\<close>; \<open>forEach\<close> skips holes
  and counts them in the index.
\<close>

fun drawHoverPoints ::
  "point_options \<Rightarrow> HoverType \<Rightarrow> int \<Rightarrow> coordinate option list \<Rightarrow> nat \<Rightarrow> canvas_op list"
  where
  "drawHoverPoints po ht hi [] i = []"
| "drawHoverPoints po ht hi (None # ps) i = drawHoverPoints po ht hi ps (Suc i)"
| "drawHoverPoints po ht hi (Some xy # ps) i =
     (if ht = POINT \<and> int i = hi
      then RenderStrokeFillCircle (point_activeBackgroundColor po) (point_activeBorderColor po)
             (point_activeBorderSize po) xy (point_activeRadius po)
      else RenderStrokeFillCircle (point_backgroundColor po) (point_borderColor po)
             (point_borderSize po) xy (point_radius po))
     # drawHoverPoints po ht hi ps (Suc i)"

text \<open>
  \<open>draw(ctx)\<close>. \<open>Array.map\<close> keeps holes; \<open>createGraphicOptions(...) || []\<close> turns an
  absent result into no group.
\<close>

definition draw :: "chart_env \<Rightarrow> mark_hooks \<Rightarrow> graphic_mark \<Rightarrow> canvas \<Rightarrow> canvas \<times> js_error option"
  where
  "draw env h m ctx =
     (let xyPoints = map (map_option (toXyPoint env)) (tpPoints m);
          markOptions = graphicMark env;
          shapes =
            (if drawStep m \<noteq> GRAPHIC_MARK_DRAW_STEP_START \<and> 0 < length xyPoints then
               (let vp = \<lparr> vwidth = xAxisWidth env, vheight = yAxisHeight env \<rparr>;
                    pr = \<lparr> pprice = pricePrecision env, pvolume = volumePrecision env \<rparr>;
                    graphicOptions =
                      (case createGraphicOptions h (tpPoints m) xyPoints vp pr of
                         None \<Rightarrow> [] | Some gs \<Rightarrow> gs)
                in case forEach_graphicOption markOptions graphicOptions ctx of
                     (ctx', Some e) \<Rightarrow> (ctx', Some e)
                   | (ctx', None) \<Rightarrow> (drawExtend h ctx' graphicOptions markOptions vp pr, None))
             else (ctx, None))
      in case shapes of
           (ctx', Some e) \<Rightarrow> (ctx', Some e)
         | (ctx', None) \<Rightarrow>
             if hoverType m \<noteq> NONE
             then (ctx' @ drawHoverPoints (opt_point markOptions) (hoverType m) (hoverIndex m)
                            xyPoints 0, None)
             else (ctx', None))"

subsection \<open>Hover state and hit testing\<close>

definition isDrawing :: "graphic_mark \<Rightarrow> bool" where
  "isDrawing m = (drawStep m \<noteq> GRAPHIC_MARK_DRAW_STEP_FINISHED)"

definition resetHoverParams :: "graphic_mark \<Rightarrow> graphic_mark" where
  "resetHoverParams m = m\<lparr> hoverType := NONE, hoverIndex := - 1 \<rparr>"

text \<open>
  The first loop of \<open>checkMousePointOnGraphic\<close>, from index \<open>i\<close> on, with the
  \<open>xyPoints\<close> pushed so far. Destructuring a hole throws a TypeError.
\<close>

datatype point_scan = PointHit nat | PointThrow js_error | PointMiss "coordinate list"

fun checkPoints ::
  "chart_env \<Rightarrow> coordinate \<Rightarrow> tp_point option list \<Rightarrow> nat \<Rightarrow> coordinate list \<Rightarrow> point_scan"
  where
  "checkPoints env mp [] i xyPoints = PointMiss xyPoints"
| "checkPoints env mp (None # ps) i xyPoints = PointThrow TypeError"
| "checkPoints env mp (Some p # ps) i xyPoints =
     (let xyPoint = toXyPoint env p in
      if checkPointOnCircle env xyPoint (point_radius (opt_point (graphicMark env))) mp
      then PointHit i
      else checkPoints env mp ps (Suc i) (xyPoints @ [xyPoint]))"

text \<open>
  The inner loop over one group's \<open>dataSource\<close>, and the loop over the groups. For a
  checked group whose \<open>dataSource\<close> is \<open>null\<close>, reading \<open>dataSource.length\<close> throws a
  TypeError.
\<close>

fun checkDataSource :: "mark_hooks \<Rightarrow> coordinate \<Rightarrow> data_item list \<Rightarrow> nat \<Rightarrow> nat option" where
  "checkDataSource h mp [] i = None"
| "checkDataSource h mp (d # ds) i =
     (if checkMousePointOn h d mp then Some i else checkDataSource h mp ds (Suc i))"

fun checkGraphicOptions ::
  "mark_hooks \<Rightarrow> coordinate \<Rightarrow> graphic_option list \<Rightarrow> js_error + nat option" where
  "checkGraphicOptions h mp [] = Inr None"
| "checkGraphicOptions h mp (g # gs) =
     (if isCheck g = Some True then
        (case defaultEmpty (dataSource g) of
           Defined ds \<Rightarrow>
             (case checkDataSource h mp ds 0 of
                Some i \<Rightarrow> Inr (Some i)
              | None \<Rightarrow> checkGraphicOptions h mp gs)
         | Null \<Rightarrow> Inl TypeError
         | Undefined \<Rightarrow> Inl TypeError)
      else checkGraphicOptions h mp gs)"

text \<open>
  \<open>checkMousePointOnGraphic(point)\<close>: what was thrown, or the value returned
  (\<open>Some True\<close> for \<open>return true\<close>, \<open>None\<close> where the function ends without a
  \<open>return\<close>, which gives \<open>undefined\<close>) with the mark afterwards.
\<close>

definition checkMousePointOnGraphic ::
  "chart_env \<Rightarrow> mark_hooks \<Rightarrow> coordinate \<Rightarrow> graphic_mark \<Rightarrow> js_error + (bool option \<times> graphic_mark)"
  where
  "checkMousePointOnGraphic env h mp m =
     (case checkPoints env mp (tpPoints m) 0 [] of
        PointHit i \<Rightarrow> Inr (Some True, m\<lparr> hoverType := POINT, hoverIndex := int i \<rparr>)
      | PointThrow e \<Rightarrow> Inl e
      | PointMiss xyPoints \<Rightarrow>
          (let graphicOptions =
                 (case createGraphicOptions h (tpPoints m) (map Some xyPoints)
                         \<lparr> vwidth = xAxisWidth env, vheight = yAxisHeight env \<rparr>
                         \<lparr> pprice = pricePrecision env, pvolume = volumePrecision env \<rparr> of
                    None \<Rightarrow> [] | Some gs \<Rightarrow> gs)
           in case checkGraphicOptions h mp graphicOptions of
                Inl e \<Rightarrow> Inl e
              | Inr (Some i) \<Rightarrow>
                  Inr (Some True, m\<lparr> hoverType := OTHER, hoverIndex := int i \<rparr>)
              | Inr None \<Rightarrow> Inr (None, resetHoverParams m)))"

subsection \<open>Placing and dragging\<close>

text \<open>
  The point \<open>{ timestamp, price, dataIndex }\<close> both mouse handlers resolve from a pixel.
\<close>

definition resolvePoint :: "chart_env \<Rightarrow> coordinate \<Rightarrow> tp_point" where
  "resolvePoint env mp =
     (let di = xConvertFromPixel env (cx mp);
          ts = dataIndexToTimestamp env di;
          pr = yConvertFromPixel env (cy mp)
      in \<lparr> timestamp = ts, price = pr, dataIndex = di \<rparr>)"

text \<open>
  \<open>mouseMoveForDrawing(point)\<close>: the assignment \<open>_tpPoints[_drawStep - 1] = ...\<close>
  stores an element for an index from 0 on and a property of the array otherwise.
\<close>

definition mouseMoveForDrawing ::
  "chart_env \<Rightarrow> mark_hooks \<Rightarrow> coordinate \<Rightarrow> graphic_mark \<Rightarrow> graphic_mark" where
  "mouseMoveForDrawing env h mp m =
     (let tp = resolvePoint env mp;
          k = drawStep m - 1;
          m1 = (if 0 \<le> k then m\<lparr> tpPoints := array_set (tpPoints m) (nat k) tp \<rparr>
                else m\<lparr> tpProps := (k, tp) # tpProps m \<rparr>)
      in m1\<lparr> tpPoints := performMouseMoveForDrawing h (drawStep m) (tpPoints m1) tp \<rparr>)"

text \<open>\<open>mouseLeftButtonDownForDrawing()\<close>.\<close>

definition mouseLeftButtonDownForDrawing :: "graphic_mark \<Rightarrow> graphic_mark" where
  "mouseLeftButtonDownForDrawing m =
     (if drawStep m = totalStep m - 1
      then m\<lparr> drawStep := GRAPHIC_MARK_DRAW_STEP_FINISHED \<rparr>
      else m\<lparr> drawStep := drawStep m + 1 \<rparr>)"

text \<open>
  \<open>mousePressedMove(point)\<close>: the three assignments to the fields of
  \<open>_tpPoints[_hoverIndex]\<close> throw a TypeError, before anything is written, where that
  slot holds nothing.
\<close>

definition mousePressedMove ::
  "chart_env \<Rightarrow> mark_hooks \<Rightarrow> coordinate \<Rightarrow> graphic_mark \<Rightarrow> js_error + graphic_mark" where
  "mousePressedMove env h mp m =
     (if hoverType m = POINT \<and> hoverIndex m \<noteq> - 1 then
        (let tp = resolvePoint env mp;
             hi = hoverIndex m;
             slot = (if 0 \<le> hi
                     then (if nat hi < length (tpPoints m) then tpPoints m ! nat hi else None)
                     else map_of (tpProps m) hi)
         in case slot of
              None \<Rightarrow> Inl TypeError
            | Some old \<Rightarrow>
                (let new = old\<lparr> timestamp := timestamp tp, dataIndex := dataIndex tp,
                                price := price tp \<rparr>;
                     m1 = (if 0 \<le> hi then m\<lparr> tpPoints := (tpPoints m)[nat hi := Some new] \<rparr>
                           else m\<lparr> tpProps := (hi, new) # tpProps m \<rparr>)
                 in Inr (m1\<lparr> tpPoints := performMousePressedMove h (tpPoints m1) hi tp \<rparr>)))
      else Inr m)"

section \<open>DrawWidget (src/widget/DrawWidget.ts)\<close>

text \<open>
  Modelled from the spec: the enumeration \<open>UpdateLevel\<close> is declared in common/Updater,
  which is not part of the sources at hand. The specification lists the levels
  \<open>MAIN\<close> (main canvas only), \<open>OVERLAY\<close> (overlay canvas only) and \<open>ALL\<close>/\<open>DRAWER\<close>
  (both); they are the four members \<open>updateImp\<close> names.
\<close>

datatype UpdateLevel = Level_MAIN | Level_OVERLAY | Level_DRAWER | Level_ALL

text \<open>
  An \<open>HTMLElement\<close>: \<open>offsetWidth\<close> and \<open>offsetHeight\<close> are what the layout reports
  (the code reads them and never writes them); the style lengths are the numbers of
  pixels the code assigns as \<open>`${n}px`\<close>, absent until assigned. A canvas has its
  backing-store size \<open>width\<close> and \<open>height\<close> as well.
\<close>

record element =
  offsetWidth :: real
  offsetHeight :: real
  style_left :: "real option"
  style_width :: "real option"
  style_height :: "real option"

record canvas_element = element +
  canvas_width :: int
  canvas_height :: int

text \<open>The three fields of \<open>Required<Bounding>\<close> that \<open>updateImp\<close> reads.\<close>

record bounding =
  bounding_width :: real
  bounding_height :: real
  bounding_left :: real

text \<open>
  The abstract methods a scheduled callback calls, and a callback as the calls it makes.
\<close>

datatype update_call = UpdateMain | UpdateOverlay

type_synonym frame_callback = "update_call list"

text \<open>
  Modelled from the spec: \<open>requestAnimationFrame\<close> and \<open>cancelAnimationFrame\<close> are
  imported from common/utils/compatible, which is not part of the sources at hand. Per
  the specification a requested redraw is deferred to the next animation frame and a
  pending one can be cancelled through its handle. The host keeps the callbacks of this
  widget that are pending, in the order requested; a request returns a fresh positive
  handle; when the frame fires every pending callback runs once and none stays pending.
\<close>

record frame_host =
  pending :: "(int \<times> frame_callback) list"
  lastHandle :: nat

definition requestAnimationFrame :: "frame_callback \<Rightarrow> frame_host \<Rightarrow> int \<times> frame_host" where
  "requestAnimationFrame cb host =
     (let handle = int (Suc (lastHandle host))
      in (handle, host\<lparr> pending := pending host @ [(handle, cb)],
                         lastHandle := Suc (lastHandle host) \<rparr>))"

definition cancelAnimationFrame :: "int \<Rightarrow> frame_host \<Rightarrow> frame_host" where
  "cancelAnimationFrame handle host =
     host\<lparr> pending := filter (\<lambda>(i, cb). i \<noteq> handle) (pending host) \<rparr>"

text \<open>The frame fires: the callbacks that run, in order, and the host afterwards.\<close>

definition fireFrame :: "frame_host \<Rightarrow> frame_callback list \<times> frame_host" where
  "fireFrame host = (map snd (pending host), host\<lparr> pending := [] \<rparr>)"

definition DEFAULT_REQUEST_ID :: int where
  "DEFAULT_REQUEST_ID = - 1"

text \<open>The widget: its two canvases, their contexts and the remembered frame handle.\<close>

record draw_widget =
  mainCanvas :: canvas_element
  mainCtx :: canvas
  overlayCanvas :: canvas_element
  overlayCtx :: canvas
  requestAnimationId :: int

text \<open>\<open>_optimalUpdate(update)\<close>.\<close>

definition optimalUpdate ::
  "frame_callback \<Rightarrow> draw_widget \<times> frame_host \<Rightarrow> draw_widget \<times> frame_host" where
  "optimalUpdate update st =
     (let w = fst st; host = snd st;
          cancelled =
            (if requestAnimationId w \<noteq> DEFAULT_REQUEST_ID
             then (w\<lparr> requestAnimationId := DEFAULT_REQUEST_ID \<rparr>,
                   cancelAnimationFrame (requestAnimationId w) host)
             else (w, host));
          requested = requestAnimationFrame update (snd cancelled)
      in ((fst cancelled)\<lparr> requestAnimationId := fst requested \<rparr>, snd requested))"

text \<open>
  \<open>updateImp(level, container, bounding)\<close>, with the engine's arithmetic and the pixel
  ratio that \<open>getPixelRatio\<close> (common/utils/canvas, not part of the sources at hand)
  gives for the main canvas. \<open>Math.floor\<close> is applied to the double that
  \<open>width * pixelRatio\<close> gives. It returns the container, the widget and the host as
  the call leaves them.
\<close>

definition updateImp ::
  "number_ops \<Rightarrow> real \<Rightarrow> UpdateLevel \<Rightarrow> element \<Rightarrow> bounding \<Rightarrow> draw_widget \<times> frame_host
     \<Rightarrow> element \<times> draw_widget \<times> frame_host" where
  "updateImp ops pixelRatio level container bnd st =
     (let w = fst st; host = snd st;
          bw = bounding_width bnd; bh = bounding_height bnd;
          container1 = container\<lparr> style_left := Some (bounding_left bnd) \<rparr>;
          sizeFlag = (bw \<noteq> offsetWidth container1 \<or> bh \<noteq> offsetHeight container1);
          clearMain =
            ClearRect 0 0 (offsetWidth (mainCanvas w)) (offsetHeight (mainCanvas w));
          clearOverlay =
            ClearRect 0 0 (offsetWidth (overlayCanvas w)) (offsetHeight (overlayCanvas w));
          resized =
            (if sizeFlag then
               (let scaleWidth = \<lfloor>num_times ops bw pixelRatio\<rfloor>;
                    scaleHeight = \<lfloor>num_times ops bh pixelRatio\<rfloor>
                in (container1\<lparr> style_width := Some bw, style_height := Some bh \<rparr>,
                    w\<lparr> mainCanvas :=
                         (mainCanvas w)\<lparr> style_width := Some bw, style_height := Some bh,
                                         canvas_width := scaleWidth,
                                         canvas_height := scaleHeight \<rparr>,
                       mainCtx := mainCtx w @ [clearMain, Scale pixelRatio pixelRatio],
                       overlayCanvas :=
                         (overlayCanvas w)\<lparr> style_width := Some bw, style_height := Some bh,
                                            canvas_width := scaleWidth,
                                            canvas_height := scaleHeight \<rparr>,
                       overlayCtx :=
                         overlayCtx w @ [clearOverlay, Scale pixelRatio pixelRatio] \<rparr>,
                    Level_DRAWER))
             else
               (container1,
                w\<lparr> mainCtx :=
                     (if level = Level_ALL \<or> level = Level_DRAWER \<or> level = Level_MAIN
                      then mainCtx w @ [clearMain] else mainCtx w),
                   overlayCtx :=
                     (if level = Level_ALL \<or> level = Level_DRAWER \<or> level = Level_OVERLAY
                      then overlayCtx w @ [clearOverlay] else overlayCtx w) \<rparr>,
                level));
          container2 = fst resized; w2 = fst (snd resized); l = snd (snd resized)
      in (container2,
          (case l of
             Level_MAIN \<Rightarrow> optimalUpdate [UpdateMain] (w2, host)
           | Level_OVERLAY \<Rightarrow> optimalUpdate [UpdateOverlay] (w2, host)
           | Level_DRAWER \<Rightarrow> optimalUpdate [UpdateMain, UpdateOverlay] (w2, host)
           | Level_ALL \<Rightarrow> optimalUpdate [UpdateMain, UpdateOverlay] (w2, host))))"

text \<open>
  Consecutive calls of \<open>updateImp\<close>, each with its level, container and bounding, with
  no frame fired in between: the widget and host after the last call, and after each
  call.
\<close>

fun updateImps ::
  "number_ops \<Rightarrow> real \<Rightarrow> (UpdateLevel \<times> element \<times> bounding) list
     \<Rightarrow> draw_widget \<times> frame_host \<Rightarrow> draw_widget \<times> frame_host" where
  "updateImps ops pixelRatio [] st = st"
| "updateImps ops pixelRatio ((level, container, bnd) # calls) st =
     updateImps ops pixelRatio calls (snd (updateImp ops pixelRatio level container bnd st))"

fun updateImps_trace ::
  "number_ops \<Rightarrow> real \<Rightarrow> (UpdateLevel \<times> element \<times> bounding) list
     \<Rightarrow> draw_widget \<times> frame_host \<Rightarrow> (draw_widget \<times> frame_host) list" where
  "updateImps_trace ops pixelRatio [] st = []"
| "updateImps_trace ops pixelRatio ((level, container, bnd) # calls) st =
     snd (updateImp ops pixelRatio level container bnd st)
       # updateImps_trace ops pixelRatio calls
           (snd (updateImp ops pixelRatio level container bnd st))"

subsection \<open>Coalescing, as the specification words it\<close>

text \<open>
  The level a call implies: the strongest level where the bounding's size differs from
  the container's, the requested level otherwise; and the redraw a level stands for.
\<close>

definition impliedLevel :: "UpdateLevel \<times> element \<times> bounding \<Rightarrow> UpdateLevel" where
  "impliedLevel call =
     (case call of (level, container, bnd) \<Rightarrow>
        if bounding_width bnd = offsetWidth container \<and>
           bounding_height bnd = offsetHeight container
        then level else Level_DRAWER)"

fun levelRedraw :: "UpdateLevel \<Rightarrow> frame_callback" where
  "levelRedraw Level_MAIN = [UpdateMain]"
| "levelRedraw Level_OVERLAY = [UpdateOverlay]"
| "levelRedraw Level_DRAWER = [UpdateMain, UpdateOverlay]"
| "levelRedraw Level_ALL = [UpdateMain, UpdateOverlay]"

text \<open>
  The widget holds at most one pending handle, the one it remembers: the state of a new
  widget, kept by every call and by every frame.
\<close>

definition onePending :: "draw_widget \<times> frame_host \<Rightarrow> bool" where
  "onePending st =
     (case pending (snd st) of
        [] \<Rightarrow> True
      | [(i, cb)] \<Rightarrow> i = requestAnimationId (fst st) \<and> i \<noteq> DEFAULT_REQUEST_ID
      | _ \<Rightarrow> False)"

section \<open>CandleAreaView (the view drawing the candle area)\<close>

text \<open>
  One entry of the visible window as \<open>drawImp\<close> reads it: \<open>vd_value\<close> is the field
  \<open>data[styles.value]\<close> where the data is present and the field is a number
  (\<open>isNumber\<close>), \<open>vd_x\<close> the pixel column, \<open>vd_dataIndex\<close> the index into the data list.
\<close>

record visible_data =
  vd_value :: "real option"
  vd_x :: real
  vd_dataIndex :: int

text \<open>The styles \<open>candle.area\<close>; the background is a colour or an array of gradient stops.\<close>

datatype background = BackgroundColor string | GradientColors "(real \<times> string) list"

record area_point_styles =
  pt_show :: bool
  pt_color :: string
  pt_radius :: real
  pt_rippleColor :: string
  pt_rippleRadius :: real
  pt_animation :: bool
  pt_animationDuration :: real

record area_styles =
  area_lineColor :: string
  area_lineSize :: real
  area_smooth :: bool
  area_backgroundColor :: background
  area_point :: area_point_styles

text \<open>
  What the view reads from its widget, pane and chart, with the members of other classes
  it calls: \<open>eachChildren\<close> of ChildrenView walks \<open>visibleData\<close> in order, handing the
  callback the entry and its position; \<open>createFigure\<close> of View gives a figure or null;
  \<open>addColorStop\<close> of the host's gradient either adds the stop or throws, the thrown
  value given by its \<open>toString()\<close>; \<open>numberOps\<close> is the engine's arithmetic.
\<close>

record view_env =
  dataListLength :: int
  boundingHeight :: real
  convertToPixel :: "real \<Rightarrow> real"
  areaStyles :: area_styles
  visibleData :: "visible_data list"
  createFigure :: "figure \<Rightarrow> figure option"
  addColorStop :: "gradient \<Rightarrow> real \<Rightarrow> string \<Rightarrow> string + gradient"
  numberOps :: number_ops

text \<open>
  The calls made on \<open>_animation\<close> (class Animation, not part of the sources at hand), and
  the view's own fields.
\<close>

datatype animation_call = SetDuration real | Start | Stop

record candle_area_view =
  ripple_figure :: "figure option"
  animationFrameTime :: real
  animation :: "animation_call list"

text \<open>A new view: \<open>_figure = null\<close>, \<open>_animationFrameTime = 0\<close>, the animation untouched.\<close>

definition new_CandleAreaView :: candle_area_view where
  "new_CandleAreaView = \<lparr> ripple_figure = None, animationFrameTime = 0, animation = [] \<rparr>"

text \<open>The locals the callback of \<open>eachChildren\<close> assigns.\<close>

record area_locals =
  coordinates :: "coordinate list"
  minY :: real
  areaStartX :: real
  indicatePointCoordinate :: "coordinate option"

definition MAX_SAFE_INTEGER :: real where
  "MAX_SAFE_INTEGER = 9007199254740991"

definition eachChild :: "view_env \<Rightarrow> visible_data \<Rightarrow> nat \<Rightarrow> area_locals \<Rightarrow> area_locals" where
  "eachChild env d i loc =
     (case vd_value d of
        None \<Rightarrow> loc
      | Some v \<Rightarrow>
          (let py = convertToPixel env v;
               c = \<lparr> cx = vd_x d, cy = py \<rparr>
           in \<lparr> coordinates = coordinates loc @ [c],
                minY = min (minY loc) py,
                areaStartX = (if i = 0 then vd_x d else areaStartX loc),
                indicatePointCoordinate =
                  (if vd_dataIndex d = dataListLength env - 1 then Some c
                   else indicatePointCoordinate loc) \<rparr>))"

fun eachChildren_from :: "view_env \<Rightarrow> visible_data list \<Rightarrow> nat \<Rightarrow> area_locals \<Rightarrow> area_locals"
  where
  "eachChildren_from env [] i loc = loc"
| "eachChildren_from env (d # ds) i loc = eachChildren_from env ds (Suc i) (eachChild env d i loc)"

definition eachChildren :: "view_env \<Rightarrow> area_locals" where
  "eachChildren env =
     eachChildren_from env (visibleData env) 0
       \<lparr> coordinates = [], minY = MAX_SAFE_INTEGER, areaStartX = 0,
         indicatePointCoordinate = None \<rparr>"

text \<open>\<open>createFigure(...)?.draw(ctx)\<close>: nothing is drawn for null.\<close>

definition drawFigure :: "figure option \<Rightarrow> canvas \<Rightarrow> canvas" where
  "drawFigure f ctx = (case f of None \<Rightarrow> ctx | Some fig \<Rightarrow> ctx @ [FigureDraw fig])"

text \<open>
  \<open>backgroundColor.forEach(({ offset, color }) => gradient.addColorStop(offset, color))\<close>:
  the gradient as the loop leaves it and what was thrown. A stop that throws ends the
  loop; the stops added before it stay in the gradient.
\<close>

fun addColorStops ::
  "(gradient \<Rightarrow> real \<Rightarrow> string \<Rightarrow> string + gradient) \<Rightarrow> (real \<times> string) list \<Rightarrow> gradient
     \<Rightarrow> gradient \<times> string option" where
  "addColorStops add [] g = (g, None)"
| "addColorStops add ((offset, color) # stops) g =
     (case add g offset color of
        Inl e \<Rightarrow> (g, Some e)
      | Inr g' \<Rightarrow> addColorStops add stops g')"

definition createLinearGradient :: "real \<Rightarrow> real \<Rightarrow> real \<Rightarrow> real \<Rightarrow> gradient" where
  "createLinearGradient x0 y0 x1 y1 =
     \<lparr> grad_x0 = x0, grad_y0 = y0, grad_x1 = x1, grad_y1 = y1, colorStops = [] \<rparr>"

text \<open>
  The fill style of the area and the console after it: for an array of stops the
  \<open>try\<close> block adds them, the \<open>catch\<close> block logs what was thrown, and the gradient is
  the colour either way.
\<close>

definition areaColor :: "view_env \<Rightarrow> area_locals \<Rightarrow> string list \<Rightarrow> paint \<times> string list" where
  "areaColor env loc console =
     (case area_backgroundColor (areaStyles env) of
        GradientColors stops \<Rightarrow>
          (case addColorStops (addColorStop env) stops
                  (createLinearGradient 0 (boundingHeight env) 0 (minY loc)) of
             (g, Some e) \<Rightarrow> (GradientPaint g, console @ [''CandleAreaView '' @ e])
           | (g, None) \<Rightarrow> (GradientPaint g, console))
      | BackgroundColor c \<Rightarrow> (Color c, console))"

text \<open>The path of the area, from \<open>ctx.fillStyle = color\<close> to \<open>ctx.fill()\<close>.\<close>

definition fillArea :: "view_env \<Rightarrow> area_locals \<Rightarrow> paint \<Rightarrow> canvas_op list" where
  "fillArea env loc color =
     [SetFillStyle color, BeginPath,
      MoveTo (areaStartX loc) (boundingHeight env),
      LineTo (cx (hd (coordinates loc))) (cy (hd (coordinates loc))),
      PathLineTo (coordinates loc) (area_smooth (areaStyles env)),
      LineTo (cx (last (coordinates loc))) (boundingHeight env),
      ClosePath, Fill]"

text \<open>The block \<open>if (coordinates.length > 0)\<close>: the context and the console after it.\<close>

definition drawArea ::
  "view_env \<Rightarrow> area_locals \<Rightarrow> canvas \<Rightarrow> string list \<Rightarrow> canvas \<times> string list" where
  "drawArea env loc ctx console =
     (if 0 < length (coordinates loc) then
        (let ctx1 = drawFigure
               (createFigure env
                  \<lparr> fig_name = ''line'', fig_attrs = LineAttrs (coordinates loc),
                    fig_styles = LineStyles (area_lineColor (areaStyles env))
                                   (area_lineSize (areaStyles env))
                                   (area_smooth (areaStyles env)) \<rparr>) ctx;
             coloured = areaColor env loc console
         in (ctx1 @ fillArea env loc (fst coloured), snd coloured))
      else (ctx, console))"

text \<open>
  The block on \<open>pointStyles\<close>: the indicator point, the ripple figure kept in
  \<open>_figure\<close>, and the animation. With the animation on and a duration of 0 the ripple
  radius is no finite number.
\<close>

definition drawPoint ::
  "view_env \<Rightarrow> area_locals \<Rightarrow> candle_area_view \<Rightarrow> canvas \<Rightarrow> candle_area_view \<times> canvas" where
  "drawPoint env loc view ctx =
     (let ps = area_point (areaStyles env) in
      case indicatePointCoordinate loc of
        None \<Rightarrow> (view\<lparr> animation := animation view @ [Stop] \<rparr>, ctx)
      | Some c \<Rightarrow>
          if pt_show ps then
            (let ctx1 = drawFigure
                   (createFigure env
                      \<lparr> fig_name = ''circle'', fig_attrs = CircleAttrs (cx c) (cy c) (pt_radius ps),
                        fig_styles = FillStyles ''fill'' (pt_color ps) \<rparr>) ctx;
                 rippleAttrs =
                   (if pt_animation ps then
                      (if pt_animationDuration ps = 0 then CircleAttrsNotFinite (cx c) (cy c)
                       else CircleAttrs (cx c) (cy c)
                              (num_plus (numberOps env) (pt_radius ps)
                                 (num_times (numberOps env)
                                    (num_divide (numberOps env) (animationFrameTime view)
                                       (pt_animationDuration ps))
                                    (num_minus (numberOps env) (pt_rippleRadius ps)
                                       (pt_radius ps)))))
                    else CircleAttrs (cx c) (cy c) (pt_rippleRadius ps));
                 started =
                   (if pt_animation ps
                    then animation view @ [SetDuration (pt_animationDuration ps), Start]
                    else animation view);
                 fig =
                   (case ripple_figure view of
                      None \<Rightarrow>
                        createFigure env
                          \<lparr> fig_name = ''circle'',
                            fig_attrs = CircleAttrs (cx c) (cy c) (pt_rippleRadius ps),
                            fig_styles = FillStyles ''fill'' (pt_rippleColor ps) \<rparr>
                    | Some f \<Rightarrow> Some (f\<lparr> fig_attrs := rippleAttrs \<rparr>));
                 ctx2 = drawFigure fig ctx1;
                 restarted =
                   (if pt_animation ps
                    then started @ [SetDuration (pt_animationDuration ps), Start]
                    else started)
             in (view\<lparr> ripple_figure := fig, animation := restarted \<rparr>, ctx2))
          else (view\<lparr> animation := animation view @ [Stop] \<rparr>, ctx))"

text \<open>
  \<open>drawImp(ctx)\<close>: the view, the context and the console as the call leaves them. The
  one statement of the method that can throw is inside its \<open>try\<close> block.
\<close>

definition drawImp ::
  "view_env \<Rightarrow> candle_area_view \<Rightarrow> canvas \<Rightarrow> string list
     \<Rightarrow> candle_area_view \<times> canvas \<times> string list" where
  "drawImp env view ctx console =
     (let loc = eachChildren env;
          area = drawArea env loc ctx console;
          pointed = drawPoint env loc view (fst area)
      in (fst pointed, snd pointed, snd area))"

section \<open>Concrete inputs\<close>

text \<open>
  A chart on which the properties below are evaluated: data index \<open>i\<close> sits at pixel
  \<open>10 * i\<close> and carries the timestamp \<open>60000 * (i + 1)\<close>, price \<open>v\<close> sits at pixel
  \<open>300 - v\<close>, and a pixel is on a circle when its distance from the centre is at most the
  radius.
\<close>

definition example_options :: mark_options where
  "example_options =
     \<lparr> opt_line = \<lparr> line_color = ''#2196F3'', line_size = 1 \<rparr>,
       opt_text = \<lparr> text_weight = ''normal'', text_size = 12, text_family = ''Arial'',
                    text_color = ''#2196F3'', text_marginLeft = 2, text_marginBottom = 6 \<rparr>,
       opt_point = \<lparr> point_radius = 4, point_backgroundColor = ''#2196F3'',
                     point_borderColor = ''#2196F3'', point_borderSize = 1,
                     point_activeRadius = 6, point_activeBackgroundColor = ''#2196F3'',
                     point_activeBorderColor = ''#2196F3'', point_activeBorderSize = 1 \<rparr> \<rparr>"

definition example_env :: chart_env where
  "example_env =
     \<lparr> xConvertToPixel = (\<lambda>i. 10 * i),
       xConvertFromPixel = (\<lambda>px. px / 10),
       yConvertToPixel = (\<lambda>v. 300 - v),
       yConvertFromPixel = (\<lambda>py. 300 - py),
       timestampToDataIndex = (\<lambda>t. t / 60000 - 1),
       dataIndexToTimestamp = (\<lambda>i. Some (60000 * (i + 1))),
       xAxisWidth = 800,
       yAxisHeight = 300,
       pricePrecision = 2,
       volumePrecision = 0,
       graphicMark = example_options,
       checkPointOnCircle =
         (\<lambda>c r p. \<not> (cx p - cx c) * (cx p - cx c) + (cy p - cy c) * (cy p - cy c) > r * r) \<rparr>"

text \<open>
  The scenario of a mark with \<open>K\<close> steps: the mouse moves to pixel (100, 50), a click,
  the mouse moves to (200, 80), a second click.
\<close>

definition scenario_click1 :: "chart_env \<Rightarrow> int \<Rightarrow> graphic_mark" where
  "scenario_click1 env K =
     mouseLeftButtonDownForDrawing
       (mouseMoveForDrawing env GraphicMark_hooks \<lparr> cx = 100, cy = 50 \<rparr> (new_GraphicMark K))"

definition scenario_move2 :: "chart_env \<Rightarrow> int \<Rightarrow> graphic_mark" where
  "scenario_move2 env K =
     mouseMoveForDrawing env GraphicMark_hooks \<lparr> cx = 200, cy = 80 \<rparr> (scenario_click1 env K)"

definition scenario_click2 :: "chart_env \<Rightarrow> int \<Rightarrow> graphic_mark" where
  "scenario_click2 env K = mouseLeftButtonDownForDrawing (scenario_move2 env K)"

text \<open>
  A user's placement: for each step a list of mouse moves, then the confirming click.
\<close>

definition mouseMoves :: "chart_env \<Rightarrow> mark_hooks \<Rightarrow> coordinate list \<Rightarrow> graphic_mark \<Rightarrow> graphic_mark" where
  "mouseMoves env h mps m = foldl (\<lambda>m' mp. mouseMoveForDrawing env h mp m') m mps"

definition placeStep :: "chart_env \<Rightarrow> mark_hooks \<Rightarrow> coordinate list \<Rightarrow> graphic_mark \<Rightarrow> graphic_mark" where
  "placeStep env h mps m = mouseLeftButtonDownForDrawing (mouseMoves env h mps m)"

definition placeSteps :: "chart_env \<Rightarrow> mark_hooks \<Rightarrow> coordinate list list \<Rightarrow> graphic_mark \<Rightarrow> graphic_mark" where
  "placeSteps env h rounds m = foldl (\<lambda>m' mps. placeStep env h mps m') m rounds"

text \<open>
  A two-point mark whose derived shape is the segment between its points, hit where the
  pixel lies on the segment; a mark that labels its first point with a text group; a
  finished mark with the points of pixels (100, 50) and (200, 80); the same mark with
  its first point hovered.
\<close>

definition segment_hooks :: mark_hooks where
  "segment_hooks =
     GraphicMark_hooks
       \<lparr> checkMousePointOn :=
           (\<lambda>d mp. case d of
               Points (a # b # rest) \<Rightarrow>
                 cx a \<le> cx mp \<and> cx mp \<le> cx b \<and>
                 (cy mp - cy a) * (cx b - cx a) = (cy b - cy a) * (cx mp - cx a)
             | _ \<Rightarrow> False),
         createGraphicOptions :=
           (\<lambda>tps xys vp pr. case xys of
               Some a # Some b # rest \<Rightarrow>
                 Some [\<lparr> gtype = ''line'', isDraw = None, isCheck = Some True,
                          dataSource = Defined [Points [a, b]] \<rparr>]
             | _ \<Rightarrow> None) \<rparr>"

definition label_hooks :: mark_hooks where
  "label_hooks =
     GraphicMark_hooks
       \<lparr> createGraphicOptions :=
           (\<lambda>tps xys vp pr. case xys of
               Some a # rest \<Rightarrow>
                 Some [\<lparr> gtype = ''text'', isDraw = None, isCheck = None,
                          dataSource = Defined [Label (cx a) (cy a) ''250.00''] \<rparr>]
             | _ \<Rightarrow> None) \<rparr>"

definition finished_mark :: graphic_mark where
  "finished_mark =
     \<lparr> totalStep = 3, drawStep = GRAPHIC_MARK_DRAW_STEP_FINISHED,
       tpPoints = [Some \<lparr> timestamp = Some 660000, price = 250, dataIndex = 10 \<rparr>,
                   Some \<lparr> timestamp = Some 1260000, price = 220, dataIndex = 20 \<rparr>],
       tpProps = [], hoverType = NONE, hoverIndex = - 1 \<rparr>"

definition dragged_mark :: graphic_mark where
  "dragged_mark =
     \<lparr> totalStep = 3, drawStep = GRAPHIC_MARK_DRAW_STEP_FINISHED,
       tpPoints = [Some \<lparr> timestamp = Some 660000, price = 250, dataIndex = 10 \<rparr>,
                   Some \<lparr> timestamp = Some 1260000, price = 220, dataIndex = 20 \<rparr>],
       tpProps = [], hoverType = POINT, hoverIndex = 0 \<rparr>"

text \<open>
  A mark of a horizontal line: its hook gives every point the price of the dragged one.
\<close>

definition flat_hooks :: mark_hooks where
  "flat_hooks =
     GraphicMark_hooks
       \<lparr> performMousePressedMove :=
           (\<lambda>tps i tp. map (map_option (\<lambda>p. p\<lparr> price := price tp \<rparr>)) tps) \<rparr>"

text \<open>
  A mark of four steps placed with no mouse move in its second step: a move to
  (100, 50), a click, a click, a move to (300, 120), a click.
\<close>

definition gap_mark :: graphic_mark where
  "gap_mark =
     placeSteps example_env GraphicMark_hooks
       [[\<lparr> cx = 100, cy = 50 \<rparr>], [], [\<lparr> cx = 300, cy = 120 \<rparr>]] (new_GraphicMark 4)"

text \<open>
  A widget of 800 by 300 pixels with nothing drawn and no frame requested, its container,
  and a bounding of the same size and two wider ones.
\<close>

definition example_canvas :: canvas_element where
  "example_canvas =
     \<lparr> offsetWidth = 800, offsetHeight = 300, style_left = None, style_width = Some 800,
       style_height = Some 300, canvas_width = 1200, canvas_height = 450 \<rparr>"

definition example_widget :: draw_widget where
  "example_widget =
     \<lparr> mainCanvas = example_canvas, mainCtx = [], overlayCanvas = example_canvas,
       overlayCtx = [], requestAnimationId = DEFAULT_REQUEST_ID \<rparr>"

definition example_host :: frame_host where
  "example_host = \<lparr> pending = [], lastHandle = 0 \<rparr>"

definition example_container :: element where
  "example_container =
     \<lparr> offsetWidth = 800, offsetHeight = 300, style_left = Some 0, style_width = Some 800,
       style_height = Some 300 \<rparr>"

definition same_size :: bounding where
  "same_size = \<lparr> bounding_width = 800, bounding_height = 300, bounding_left = 0 \<rparr>"

definition wider_size :: bounding where
  "wider_size = \<lparr> bounding_width = 900.5, bounding_height = 300, bounding_left = 0 \<rparr>"

definition widest_size :: bounding where
  "widest_size = \<lparr> bounding_width = 1100, bounding_height = 300, bounding_left = 0 \<rparr>"

text \<open>
  The pixel ratio 1.0909090909090908, the double nearest 12/11, and the engine's
  arithmetic on the products taken with it below: 1100 times the ratio is exactly
  1200 - 25/2^48, which is no double, and the engine gives 1200; 300 times the ratio
  is likewise rounded, to a double between 327 and 328.
\<close>

definition ratio_12_11 :: real where
  "ratio_12_11 = 1228254443828317 / 1125899906842624"

definition double_ops :: number_ops where
  "double_ops =
     exact_ops
       \<lparr> num_times :=
           (\<lambda>a b. if a = 1100 \<and> b = ratio_12_11 then 1200
                  else if a = 300 \<and> b = ratio_12_11 then 1439360676361309 / 4398046511104
                  else a * b) \<rparr>"

text \<open>
  A candle area over three visible entries, the second without a value and the third the
  last of the data list, with a gradient background whose second stop has the offset
  1.5; the host's \<open>addColorStop\<close> throws an IndexSizeError for an offset outside 0..1.
\<close>

definition example_area_styles :: area_styles where
  "example_area_styles =
     \<lparr> area_lineColor = ''#2196F3'', area_lineSize = 2, area_smooth = False,
       area_backgroundColor =
         GradientColors [(0, ''rgba(33, 150, 243, 0.01)''), (1.5, ''rgba(33, 150, 243, 0.2)''),
                         (1, ''rgba(33, 150, 243, 0.4)'')],
       area_point =
         \<lparr> pt_show = True, pt_color = ''#2196F3'', pt_radius = 4,
           pt_rippleColor = ''rgba(33, 150, 243, 0.3)'', pt_rippleRadius = 8,
           pt_animation = False, pt_animationDuration = 1000 \<rparr> \<rparr>"

definition example_view_env :: view_env where
  "example_view_env =
     \<lparr> dataListLength = 3,
       boundingHeight = 300,
       convertToPixel = (\<lambda>v. 300 - v),
       areaStyles = example_area_styles,
       visibleData =
         [\<lparr> vd_value = Some 100, vd_x = 10, vd_dataIndex = 0 \<rparr>,
          \<lparr> vd_value = None, vd_x = 20, vd_dataIndex = 1 \<rparr>,
          \<lparr> vd_value = Some 120, vd_x = 30, vd_dataIndex = 2 \<rparr>],
       createFigure = (\<lambda>f. Some f),
       addColorStop =
         (\<lambda>g offset color.
            if offset < 0 \<or> 1 < offset then Inl ''IndexSizeError''
            else Inr (g\<lparr> colorStops := colorStops g @ [(offset, color)] \<rparr>)),
       numberOps = exact_ops \<rparr>"

section \<open>Hit testing, as the specification words it\<close>

text \<open>
  A pixel is on a placed point when it is on the hit-circle around the point's pixel
  position, with the configured radius. The derived shapes of a mark are the groups the
  hook returns for its points and their pixel positions. A pixel is on a derived shape
  when the hook \<open>checkMousePointOn\<close> accepts it for an element of a group whose
  \<open>isCheck\<close> is true.
\<close>

definition onPoint :: "chart_env \<Rightarrow> coordinate \<Rightarrow> tp_point \<Rightarrow> bool" where
  "onPoint env mp p =
     checkPointOnCircle env (toXyPoint env p) (point_radius (opt_point (graphicMark env))) mp"

definition graphicOptionsOf :: "chart_env \<Rightarrow> mark_hooks \<Rightarrow> graphic_mark \<Rightarrow> graphic_option list" where
  "graphicOptionsOf env h m =
     (case createGraphicOptions h (tpPoints m) (map (map_option (toXyPoint env)) (tpPoints m))
             \<lparr> vwidth = xAxisWidth env, vheight = yAxisHeight env \<rparr>
             \<lparr> pprice = pricePrecision env, pvolume = volumePrecision env \<rparr> of
        None \<Rightarrow> [] | Some gs \<Rightarrow> gs)"

definition onShape :: "mark_hooks \<Rightarrow> coordinate \<Rightarrow> graphic_option list \<Rightarrow> bool" where
  "onShape h mp gs =
     list_ex (\<lambda>g. isCheck g = Some True \<and>
                   list_ex (\<lambda>d. checkMousePointOn h d mp)
                     (case defaultEmpty (dataSource g) of
                        Defined ds \<Rightarrow> ds | Null \<Rightarrow> [] | Undefined \<Rightarrow> [])) gs"

text \<open>No group that is checked has \<open>null\<close> for its \<open>dataSource\<close>.\<close>

definition checkedDataSources :: "graphic_option list \<Rightarrow> bool" where
  "checkedDataSources gs =
     list_all (\<lambda>g. if isCheck g = Some True then dataSource g \<noteq> Null else True) gs"

section \<open>Properties of GraphicMark\<close>

lemmas placing_defs = mouseLeftButtonDownForDrawing_def mouseMoveForDrawing_def
  new_GraphicMark_def GraphicMark_hooks_def GRAPHIC_MARK_DRAW_STEP_START_def
  GRAPHIC_MARK_DRAW_STEP_FINISHED_def array_set_def

lemmas example_defs = example_env_def example_options_def GraphicMark_hooks_def

text \<open>
  C10: a placed point whose timestamp is absent or the number 0 is resolved to its pixel
  column through its data index alone, in the helper and so in the pixel position that
  \<open>draw\<close> and \<open>checkMousePointOnGraphic\<close> compute for it.
\<close>

theorem timestamp_zero_uses_dataIndex:
  "timestamp p = None \<or> timestamp p = Some 0 \<Longrightarrow>
     timestampOrDataIndexToPointX env p = xConvertToPixel env (dataIndex p) \<and>
     toXyPoint env p =
       \<lparr> cx = xConvertToPixel env (dataIndex p), cy = yConvertToPixel env (price p) \<rparr>"
  by (auto simp: timestampOrDataIndexToPointX_def toXyPoint_def)

theorem timestamp_zero_uses_dataIndex_witness:
  "timestampOrDataIndexToPointX example_env \<lparr> timestamp = Some 0, price = 120, dataIndex = 7 \<rparr> = 70 \<and>
   xConvertToPixel example_env (timestampToDataIndex example_env 0) = - 10 \<and>
   toXyPoint example_env \<lparr> timestamp = Some 0, price = 120, dataIndex = 7 \<rparr> = \<lparr> cx = 70, cy = 180 \<rparr>"
  using timestamp_zero_uses_dataIndex [of "\<lparr> timestamp = Some 0, price = 120, dataIndex = 7 \<rparr>" example_env]
  by (simp add: example_env_def)

text \<open>
  C2, as the specification states it, fails: with \<open>totalStep = 2\<close> the first click
  already finishes the mark, the following move stores no element, and the second click
  leaves the step at 0 with one placed point.
\<close>

theorem two_step_scenario_counterexample:
  "drawStep (scenario_click1 example_env 2) = GRAPHIC_MARK_DRAW_STEP_FINISHED \<and>
   drawStep (scenario_click1 example_env 2) \<noteq> 2 \<and>
   length (tpPoints (scenario_move2 example_env 2)) = 1 \<and>
   drawStep (scenario_click2 example_env 2) = 0 \<and>
   drawStep (scenario_click2 example_env 2) \<noteq> GRAPHIC_MARK_DRAW_STEP_FINISHED \<and>
   length (tpPoints (scenario_click2 example_env 2)) \<noteq> 2"
  by (simp add: scenario_click1_def scenario_move2_def scenario_click2_def placing_defs
        Let_def)

text \<open>
  C2, amended: with \<open>totalStep = 3\<close>, after the move to (100, 50) the first click leaves
  the mark placing step 2 with the one point resolved from (100, 50); the move to
  (200, 80) sets the second point and keeps step 2; the second click finishes the mark
  with two points.
\<close>

theorem three_step_scenario:
  "drawStep (scenario_click1 env 3) = 2 \<and>
   tpPoints (scenario_click1 env 3) = [Some (resolvePoint env \<lparr> cx = 100, cy = 50 \<rparr>)] \<and>
   drawStep (scenario_move2 env 3) = 2 \<and>
   tpPoints (scenario_move2 env 3) =
     [Some (resolvePoint env \<lparr> cx = 100, cy = 50 \<rparr>), Some (resolvePoint env \<lparr> cx = 200, cy = 80 \<rparr>)] \<and>
   drawStep (scenario_click2 env 3) = GRAPHIC_MARK_DRAW_STEP_FINISHED \<and>
   length (tpPoints (scenario_click2 env 3)) = 2"
  by (simp add: scenario_click1_def scenario_move2_def scenario_click2_def placing_defs
        Let_def)

theorem three_step_scenario_witness:
  "tpPoints (scenario_click2 example_env 3) =
     [Some \<lparr> timestamp = Some 660000, price = 250, dataIndex = 10 \<rparr>,
      Some \<lparr> timestamp = Some 1260000, price = 220, dataIndex = 20 \<rparr>] \<and>
   drawStep (scenario_click2 example_env 3) = - 1"
  using three_step_scenario [of example_env]
  by (simp add: scenario_click1_def scenario_move2_def scenario_click2_def placing_defs
        Let_def resolvePoint_def example_env_def)

text \<open>
  C1: the dispatch of \<open>draw\<close> hands a group tagged TEXT to \<open>_drawLines\<close>, not to
  \<open>_drawText\<close>: for a mark with a text label the line renderer reads \<open>points[0]\<close> of
  the label object and throws, where the text renderer would have written the label.
\<close>

theorem draw_text_group_throws:
  "draw example_env label_hooks finished_mark [] =
     ([SetStrokeStyle ''#2196F3'', SetLineWidth 1], Some TypeError) \<and>
   drawText exact_ops [] (Defined [Label 100 50 ''250.00'']) example_options =
     ([SetFont ''normal'' 12 ''Arial'', SetFillStyle (Color ''#2196F3''),
       FillText ''250.00'' 102 44], None)"
  by (simp add: draw_def drawGraphicOption_def drawLines_def drawText_def example_defs
        finished_mark_def label_hooks_def toXyPoint_def timestampOrDataIndexToPointX_def
        Let_def defaultEmpty_def exact_ops_def
        GRAPHIC_MARK_DRAW_STEP_START_def GRAPHIC_MARK_DRAW_STEP_FINISHED_def
        GraphicMarkDrawType_LINE_def GraphicMarkDrawType_TEXT_def)

subsection \<open>Placement\<close>

lemma mouseMove_fields:
  "drawStep (mouseMoveForDrawing env h mp m) = drawStep m"
  "totalStep (mouseMoveForDrawing env h mp m) = totalStep m"
  by (simp_all add: mouseMoveForDrawing_def Let_def)

lemma mouseMoves_fields:
  "drawStep (mouseMoves env h mps m) = drawStep m \<and> totalStep (mouseMoves env h mps m) = totalStep m"
  unfolding mouseMoves_def
  by (induction mps arbitrary: m) (simp_all add: mouseMove_fields)

lemma array_set_length:
  "length (array_set xs i v) = max (length xs) (Suc i)"
  by (auto simp: array_set_def)

lemma mouseMove_length:
  "1 \<le> drawStep m \<Longrightarrow>
   length (tpPoints (mouseMoveForDrawing env GraphicMark_hooks mp m)) =
     max (length (tpPoints m)) (nat (drawStep m))"
  by (auto simp: mouseMoveForDrawing_def Let_def GraphicMark_hooks_def array_set_length max_def)

lemma mouseMoves_length:
  "1 \<le> drawStep m \<Longrightarrow> mps \<noteq> [] \<Longrightarrow>
   length (tpPoints (mouseMoves env GraphicMark_hooks mps m)) =
     max (length (tpPoints m)) (nat (drawStep m))"
proof (induction mps arbitrary: m)
  case Nil
  then show ?case by simp
next
  case (Cons mp mps)
  let ?m1 = "mouseMoveForDrawing env GraphicMark_hooks mp m"
  have step: "drawStep ?m1 = drawStep m" by (simp add: mouseMove_fields)
  have len1: "length (tpPoints ?m1) = max (length (tpPoints m)) (nat (drawStep m))"
    using Cons.prems(1) by (rule mouseMove_length)
  show ?case
  proof (cases "mps = []")
    case True
    then show ?thesis using len1 by (simp add: mouseMoves_def)
  next
    case False
    have "length (tpPoints (mouseMoves env GraphicMark_hooks mps ?m1)) =
            max (length (tpPoints ?m1)) (nat (drawStep ?m1))"
      using Cons.IH [of ?m1] Cons.prems(1) False step by simp
    then show ?thesis using len1 step by (simp add: mouseMoves_def)
  qed
qed

lemma click_step:
  "drawStep (mouseLeftButtonDownForDrawing m) =
     (if drawStep m = totalStep m - 1 then GRAPHIC_MARK_DRAW_STEP_FINISHED else drawStep m + 1)"
  "totalStep (mouseLeftButtonDownForDrawing m) = totalStep m"
  "tpPoints (mouseLeftButtonDownForDrawing m) = tpPoints m"
  by (simp_all add: mouseLeftButtonDownForDrawing_def)

lemma placeSteps_from:
  "totalStep m = K \<Longrightarrow> 1 \<le> drawStep m \<Longrightarrow> drawStep m + int (length rounds) \<le> K \<Longrightarrow>
   drawStep (placeSteps env GraphicMark_hooks rounds m) =
     (if rounds \<noteq> [] \<and> drawStep m + int (length rounds) = K then GRAPHIC_MARK_DRAW_STEP_FINISHED
      else drawStep m + int (length rounds)) \<and>
   (length (tpPoints m) = nat (drawStep m - 1) \<longrightarrow> list_all (\<lambda>mps. mps \<noteq> []) rounds \<longrightarrow>
      length (tpPoints (placeSteps env GraphicMark_hooks rounds m)) =
        length (tpPoints m) + length rounds)"
proof (induction rounds arbitrary: m)
  case Nil
  then show ?case by (simp add: placeSteps_def)
next
  case (Cons mps rounds)
  let ?m1 = "placeStep env GraphicMark_hooks mps m"
  have unfold: "placeSteps env GraphicMark_hooks (mps # rounds) m =
                placeSteps env GraphicMark_hooks rounds ?m1"
    by (simp add: placeSteps_def)
  have tot: "totalStep ?m1 = K"
    using Cons.prems(1) by (simp add: placeStep_def click_step mouseMoves_fields)
  have stp: "drawStep ?m1 =
      (if drawStep m = K - 1 then GRAPHIC_MARK_DRAW_STEP_FINISHED else drawStep m + 1)"
    using Cons.prems(1) by (simp add: placeStep_def click_step mouseMoves_fields)
  have len: "length (tpPoints m) = nat (drawStep m - 1) \<Longrightarrow> mps \<noteq> [] \<Longrightarrow>
             length (tpPoints ?m1) = nat (drawStep m)"
    using Cons.prems(2) by (simp add: placeStep_def click_step mouseMoves_length max_def)
  show ?case
  proof (cases "drawStep m = K - 1")
    case True
    then have "rounds = []" using Cons.prems(3) by simp
    then show ?thesis
      using True stp len Cons.prems(2) unfold by (auto simp: placeSteps_def)
  next
    case False
    then have s1: "drawStep ?m1 = drawStep m + 1" using stp by simp
    have IH: "drawStep (placeSteps env GraphicMark_hooks rounds ?m1) =
       (if rounds \<noteq> [] \<and> drawStep ?m1 + int (length rounds) = K
        then GRAPHIC_MARK_DRAW_STEP_FINISHED else drawStep ?m1 + int (length rounds)) \<and>
       (length (tpPoints ?m1) = nat (drawStep ?m1 - 1) \<longrightarrow> list_all (\<lambda>mps. mps \<noteq> []) rounds \<longrightarrow>
        length (tpPoints (placeSteps env GraphicMark_hooks rounds ?m1)) =
          length (tpPoints ?m1) + length rounds)"
      using Cons.IH [of ?m1] tot s1 Cons.prems(2,3) by simp
    have notK: "rounds = [] \<Longrightarrow> drawStep m + 1 \<noteq> K" using False by simp
    have d: "drawStep (placeSteps env GraphicMark_hooks (mps # rounds) m) =
       (if mps # rounds \<noteq> [] \<and> drawStep m + int (length (mps # rounds)) = K
        then GRAPHIC_MARK_DRAW_STEP_FINISHED else drawStep m + int (length (mps # rounds)))"
      using IH s1 notK unfold by (cases "rounds = []") (simp_all add: add.assoc)
    have l: "length (tpPoints m) = nat (drawStep m - 1) \<Longrightarrow> list_all (\<lambda>mps. mps \<noteq> []) (mps # rounds) \<Longrightarrow>
        length (tpPoints (placeSteps env GraphicMark_hooks (mps # rounds) m)) =
          length (tpPoints m) + length (mps # rounds)"
    proof -
      assume a: "length (tpPoints m) = nat (drawStep m - 1)"
        and b: "list_all (\<lambda>mps. mps \<noteq> []) (mps # rounds)"
      have l1: "length (tpPoints ?m1) = nat (drawStep m)" using len a b by simp
      then have "length (tpPoints ?m1) = nat (drawStep ?m1 - 1)" using s1 by simp
      then have "length (tpPoints (placeSteps env GraphicMark_hooks rounds ?m1)) =
          length (tpPoints ?m1) + length rounds" using IH b by simp
      then show ?thesis using unfold l1 a Cons.prems(2) by (simp add: nat_diff_distrib)
    qed
    show ?thesis using d l by blast
  qed
qed

text \<open>
  C3: with \<open>totalStep = K\<close> from 2 on, a click in step \<open>s\<close> between 1 and \<open>K - 1\<close>
  finishes the mark exactly when \<open>s = K - 1\<close> and otherwise moves to step \<open>s + 1\<close>; from
  a new mark, \<open>j\<close> clicks (up to \<open>K - 1\<close>) leave the mark still drawing exactly while
  \<open>j < K - 1\<close>, finished at \<open>j = K - 1\<close>, and with \<open>j\<close> placed points when each click was
  preceded by at least one mouse move.
\<close>

theorem placement_clicks:
  "2 \<le> K \<Longrightarrow>
   (totalStep m = K \<and> 1 \<le> drawStep m \<and> drawStep m \<le> K - 1 \<longrightarrow>
       drawStep (mouseLeftButtonDownForDrawing m) =
         (if drawStep m = K - 1 then GRAPHIC_MARK_DRAW_STEP_FINISHED else drawStep m + 1)) \<and>
   (int (length rounds) \<le> K - 1 \<longrightarrow>
       drawStep (placeSteps env GraphicMark_hooks rounds (new_GraphicMark K)) =
         (if int (length rounds) = K - 1 then GRAPHIC_MARK_DRAW_STEP_FINISHED
          else 1 + int (length rounds)) \<and>
       (isDrawing (placeSteps env GraphicMark_hooks rounds (new_GraphicMark K))
          \<longleftrightarrow> int (length rounds) < K - 1) \<and>
       (list_all (\<lambda>mps. mps \<noteq> []) rounds \<longrightarrow>
          length (tpPoints (placeSteps env GraphicMark_hooks rounds (new_GraphicMark K))) =
            length rounds))"
proof (intro conjI impI)
  assume "totalStep m = K \<and> 1 \<le> drawStep m \<and> drawStep m \<le> K - 1"
  then show "drawStep (mouseLeftButtonDownForDrawing m) =
         (if drawStep m = K - 1 then GRAPHIC_MARK_DRAW_STEP_FINISHED else drawStep m + 1)"
    by (simp add: click_step)
next
  assume K: "2 \<le> K" and n: "int (length rounds) \<le> K - 1"
  let ?m0 = "new_GraphicMark K"
  have m0: "totalStep ?m0 = K" "drawStep ?m0 = 1" "tpPoints ?m0 = []"
    by (simp_all add: new_GraphicMark_def GRAPHIC_MARK_DRAW_STEP_START_def)
  have main: "drawStep (placeSteps env GraphicMark_hooks rounds ?m0) =
     (if rounds \<noteq> [] \<and> drawStep ?m0 + int (length rounds) = K then GRAPHIC_MARK_DRAW_STEP_FINISHED
      else drawStep ?m0 + int (length rounds)) \<and>
   (length (tpPoints ?m0) = nat (drawStep ?m0 - 1) \<longrightarrow> list_all (\<lambda>mps. mps \<noteq> []) rounds \<longrightarrow>
      length (tpPoints (placeSteps env GraphicMark_hooks rounds ?m0)) =
        length (tpPoints ?m0) + length rounds)"
    using placeSteps_from [of ?m0 K rounds env] m0 n by simp
  have ne: "int (length rounds) = K - 1 \<Longrightarrow> rounds \<noteq> []" using K by auto
  show d: "drawStep (placeSteps env GraphicMark_hooks rounds ?m0) =
         (if int (length rounds) = K - 1 then GRAPHIC_MARK_DRAW_STEP_FINISHED
          else 1 + int (length rounds))"
    using main m0 ne by auto
  show "isDrawing (placeSteps env GraphicMark_hooks rounds ?m0) \<longleftrightarrow> int (length rounds) < K - 1"
    using d n by (auto simp: isDrawing_def GRAPHIC_MARK_DRAW_STEP_FINISHED_def)
  assume "list_all (\<lambda>mps. mps \<noteq> []) rounds"
  then show "length (tpPoints (placeSteps env GraphicMark_hooks rounds ?m0)) = length rounds"
    using main m0 by simp
qed

theorem placement_clicks_witness:
  "drawStep (mouseLeftButtonDownForDrawing (new_GraphicMark 3)) = 2 \<and>
   drawStep (placeSteps example_env GraphicMark_hooks
       [[\<lparr> cx = 100, cy = 50 \<rparr>], [\<lparr> cx = 150, cy = 60 \<rparr>, \<lparr> cx = 200, cy = 80 \<rparr>]]
       (new_GraphicMark 3)) = GRAPHIC_MARK_DRAW_STEP_FINISHED \<and>
   \<not> isDrawing (placeSteps example_env GraphicMark_hooks
       [[\<lparr> cx = 100, cy = 50 \<rparr>], [\<lparr> cx = 150, cy = 60 \<rparr>, \<lparr> cx = 200, cy = 80 \<rparr>]]
       (new_GraphicMark 3)) \<and>
   length (tpPoints (placeSteps example_env GraphicMark_hooks
       [[\<lparr> cx = 100, cy = 50 \<rparr>], [\<lparr> cx = 150, cy = 60 \<rparr>, \<lparr> cx = 200, cy = 80 \<rparr>]]
       (new_GraphicMark 3))) = 2 \<and>
   tpPoints (placeSteps example_env GraphicMark_hooks
       [[\<lparr> cx = 100, cy = 50 \<rparr>], [\<lparr> cx = 150, cy = 60 \<rparr>, \<lparr> cx = 200, cy = 80 \<rparr>]]
       (new_GraphicMark 3)) =
     [Some \<lparr> timestamp = Some 660000, price = 250, dataIndex = 10 \<rparr>,
      Some \<lparr> timestamp = Some 1260000, price = 220, dataIndex = 20 \<rparr>]"
proof -
  have K: "(2::int) \<le> 3" by simp
  have pts: "tpPoints (placeSteps example_env GraphicMark_hooks
       [[\<lparr> cx = 100, cy = 50 \<rparr>], [\<lparr> cx = 150, cy = 60 \<rparr>, \<lparr> cx = 200, cy = 80 \<rparr>]]
       (new_GraphicMark 3)) =
     [Some \<lparr> timestamp = Some 660000, price = 250, dataIndex = 10 \<rparr>,
      Some \<lparr> timestamp = Some 1260000, price = 220, dataIndex = 20 \<rparr>]"
    by (simp add: placeSteps_def placeStep_def mouseMoves_def placing_defs Let_def
          resolvePoint_def example_env_def)
  from placement_clicks [OF K, of "new_GraphicMark 3"
         "[[\<lparr> cx = 100, cy = 50 \<rparr>], [\<lparr> cx = 150, cy = 60 \<rparr>, \<lparr> cx = 200, cy = 80 \<rparr>]]"
         example_env] pts
  show ?thesis
    by (simp add: new_GraphicMark_def GRAPHIC_MARK_DRAW_STEP_START_def
          GRAPHIC_MARK_DRAW_STEP_FINISHED_def)
qed

subsection \<open>Dragging\<close>

lemma tp_point_overwrite:
  "(old :: tp_point)\<lparr> timestamp := a, dataIndex := b, price := c \<rparr> =
     \<lparr> timestamp = a, price = c, dataIndex = b \<rparr>"
  by (cases old) simp

text \<open>
  C7, as the specification states it, fails: \<open>mousePressedMove\<close> hands the array to the
  hook \<open>performMousePressedMove\<close> after its own write. For the mark of a horizontal
  line, dragging point 0 to the pixel (150, 100) changes the price of point 1 from 220
  to 200 as well.
\<close>

theorem mousePressedMove_hook_counterexample:
  "tpPoints dragged_mark ! 1 = Some \<lparr> timestamp = Some 1260000, price = 220, dataIndex = 20 \<rparr> \<and>
   mousePressedMove example_env flat_hooks \<lparr> cx = 150, cy = 100 \<rparr> dragged_mark =
     Inr (dragged_mark\<lparr> tpPoints :=
            [Some \<lparr> timestamp = Some 960000, price = 200, dataIndex = 15 \<rparr>,
             Some \<lparr> timestamp = Some 1260000, price = 200, dataIndex = 20 \<rparr>] \<rparr>)"
  by (simp add: mousePressedMove_def Let_def flat_hooks_def GraphicMark_hooks_def
        dragged_mark_def resolvePoint_def example_env_def tp_point_overwrite)

text \<open>
  C7, amended: with a point hovered at a valid index, \<open>mousePressedMove\<close> itself
  overwrites that one point with the values resolved from the pixel and then hands the
  array to the hook \<open>performMousePressedMove\<close>, whose result are the points after the
  call; the draw step and the hover state stay as they were; whenever the hook leaves
  the array as it is (as the empty hook of the base class does), the hovered point holds
  the resolved values and every other point and the number of points are unchanged.
  With no point hovered the call changes nothing and calls no hook.
\<close>

theorem mousePressedMove_hook_frame:
  "(hoverType m = POINT \<and> 0 \<le> hoverIndex m \<and> nat (hoverIndex m) < length (tpPoints m) \<and>
    tpPoints m ! nat (hoverIndex m) \<noteq> None \<longrightarrow>
      mousePressedMove env h mp m =
        Inr (m\<lparr> tpPoints :=
               performMousePressedMove h
                 ((tpPoints m)[nat (hoverIndex m) := Some (resolvePoint env mp)])
                 (hoverIndex m) (resolvePoint env mp) \<rparr>) \<and>
      (\<forall>m'. mousePressedMove env h mp m = Inr m' \<longrightarrow>
         drawStep m' = drawStep m \<and> totalStep m' = totalStep m \<and>
         hoverType m' = hoverType m \<and> hoverIndex m' = hoverIndex m \<and>
         (performMousePressedMove h
            ((tpPoints m)[nat (hoverIndex m) := Some (resolvePoint env mp)])
            (hoverIndex m) (resolvePoint env mp) =
          (tpPoints m)[nat (hoverIndex m) := Some (resolvePoint env mp)] \<longrightarrow>
            length (tpPoints m') = length (tpPoints m) \<and>
            tpPoints m' ! nat (hoverIndex m) = Some (resolvePoint env mp) \<and>
            (\<forall>j < length (tpPoints m).
               j \<noteq> nat (hoverIndex m) \<longrightarrow> tpPoints m' ! j = tpPoints m ! j)))) \<and>
   (hoverType m \<noteq> POINT \<or> hoverIndex m = - 1 \<longrightarrow>
      mousePressedMove env h mp m = Inr m)"
  by (auto simp: mousePressedMove_def Let_def resolvePoint_def tp_point_overwrite)

theorem mousePressedMove_hook_frame_witness:
  "mousePressedMove example_env GraphicMark_hooks \<lparr> cx = 150, cy = 100 \<rparr> dragged_mark =
     Inr (dragged_mark\<lparr> tpPoints :=
            [Some \<lparr> timestamp = Some 960000, price = 200, dataIndex = 15 \<rparr>,
             Some \<lparr> timestamp = Some 1260000, price = 220, dataIndex = 20 \<rparr>] \<rparr>) \<and>
   mousePressedMove example_env flat_hooks \<lparr> cx = 150, cy = 100 \<rparr>
     (dragged_mark\<lparr> hoverType := OTHER \<rparr>) = Inr (dragged_mark\<lparr> hoverType := OTHER \<rparr>)"
  using mousePressedMove_hook_frame
          [of dragged_mark example_env GraphicMark_hooks "\<lparr> cx = 150, cy = 100 \<rparr>"]
        mousePressedMove_hook_frame
          [of "dragged_mark\<lparr> hoverType := OTHER \<rparr>" example_env flat_hooks
              "\<lparr> cx = 150, cy = 100 \<rparr>"]
  by (simp add: dragged_mark_def resolvePoint_def example_env_def GraphicMark_hooks_def)

subsection \<open>Hit testing\<close>

lemma checkPoints_hit:
  "k < length ps \<Longrightarrow> ps ! k = Some p \<Longrightarrow> onPoint env mp p \<Longrightarrow>
   \<forall>j<k. \<exists>q. ps ! j = Some q \<and> \<not> onPoint env mp q \<Longrightarrow>
   checkPoints env mp ps i acc = PointHit (i + k)"
proof (induction ps arbitrary: k i acc)
  case Nil
  then show ?case by simp
next
  case (Cons s ps)
  show ?case
  proof (cases k)
    case 0
    then show ?thesis using Cons.prems by (simp add: onPoint_def)
  next
    case (Suc k')
    from Cons.prems(4) Suc obtain q where q: "s = Some q" "\<not> onPoint env mp q"
      by fastforce
    have rest: "\<forall>j<k'. \<exists>q. ps ! j = Some q \<and> \<not> onPoint env mp q"
      using Cons.prems(4) Suc by fastforce
    have "checkPoints env mp ps (Suc i) (acc @ [toXyPoint env q]) = PointHit (Suc i + k')"
      using Cons.IH [of k' "Suc i" "acc @ [toXyPoint env q]"] Cons.prems(1,2,3) Suc rest by simp
    then show ?thesis using q Suc by (simp add: onPoint_def)
  qed
qed

lemma checkPoints_not_miss:
  "Some p \<in> set ps \<Longrightarrow> onPoint env mp p \<Longrightarrow> checkPoints env mp ps i acc \<noteq> PointMiss xs"
  by (induction env mp ps i acc rule: checkPoints.induct) (auto simp: onPoint_def Let_def)

text \<open>
  Where the slots before it all hold points, the first placed point the pixel is on
  wins: the call returns true with hover type POINT and that point's index, whatever the
  derived shapes are. OTHER is reported only when the pixel is on no placed point.
\<close>

lemma point_hit_wins:
  "(i < length (tpPoints m) \<and> tpPoints m ! i = Some p \<and> onPoint env mp p \<and>
    (\<forall>j<i. \<exists>q. tpPoints m ! j = Some q \<and> \<not> onPoint env mp q) \<longrightarrow>
      checkMousePointOnGraphic env h mp m =
        Inr (Some True, m\<lparr> hoverType := POINT, hoverIndex := int i \<rparr>)) \<and>
   (checkMousePointOnGraphic env h mp m = Inr (r, m') \<and> hoverType m' = OTHER \<longrightarrow>
      (\<forall>q. Some q \<in> set (tpPoints m) \<longrightarrow> \<not> onPoint env mp q))"
proof (intro conjI impI)
  assume a: "i < length (tpPoints m) \<and> tpPoints m ! i = Some p \<and> onPoint env mp p \<and>
    (\<forall>j<i. \<exists>q. tpPoints m ! j = Some q \<and> \<not> onPoint env mp q)"
  then have "checkPoints env mp (tpPoints m) 0 [] = PointHit (0 + i)"
    by (intro checkPoints_hit) auto
  then show "checkMousePointOnGraphic env h mp m =
        Inr (Some True, m\<lparr> hoverType := POINT, hoverIndex := int i \<rparr>)"
    by (simp add: checkMousePointOnGraphic_def)
next
  assume b: "checkMousePointOnGraphic env h mp m = Inr (r, m') \<and> hoverType m' = OTHER"
  show "\<forall>q. Some q \<in> set (tpPoints m) \<longrightarrow> \<not> onPoint env mp q"
  proof (intro allI impI notI)
    fix q assume q: "Some q \<in> set (tpPoints m)" "onPoint env mp q"
    have "\<And>xs. checkPoints env mp (tpPoints m) 0 [] \<noteq> PointMiss xs"
      using q by (rule checkPoints_not_miss)
    then show False using b
      by (auto simp: checkMousePointOnGraphic_def Let_def resetHoverParams_def
               split: point_scan.splits option.splits sum.splits)
  qed
qed

lemma point_hit_wins_example:
  "checkMousePointOnGraphic example_env segment_hooks \<lparr> cx = 200, cy = 80 \<rparr> finished_mark =
     Inr (Some True, finished_mark\<lparr> hoverType := POINT, hoverIndex := 1 \<rparr>) \<and>
   onShape segment_hooks \<lparr> cx = 200, cy = 80 \<rparr>
     (graphicOptionsOf example_env segment_hooks finished_mark) \<and>
   checkMousePointOnGraphic example_env segment_hooks \<lparr> cx = 150, cy = 65 \<rparr> finished_mark =
     Inr (Some True, finished_mark\<lparr> hoverType := OTHER, hoverIndex := 0 \<rparr>) \<and>
   \<not> onPoint example_env \<lparr> cx = 150, cy = 65 \<rparr>
       \<lparr> timestamp = Some 660000, price = 250, dataIndex = 10 \<rparr>"
proof -
  let ?p0 = "\<lparr> timestamp = Some 660000, price = 250, dataIndex = 10 \<rparr>"
  let ?p1 = "\<lparr> timestamp = Some 1260000, price = 220, dataIndex = 20 \<rparr>"
  have other: "checkMousePointOnGraphic example_env segment_hooks \<lparr> cx = 150, cy = 65 \<rparr> finished_mark =
     Inr (Some True, finished_mark\<lparr> hoverType := OTHER, hoverIndex := 0 \<rparr>)"
    by (simp add: checkMousePointOnGraphic_def example_defs finished_mark_def segment_hooks_def toXyPoint_def
          timestampOrDataIndexToPointX_def Let_def defaultEmpty_def)
  have shape: "onShape segment_hooks \<lparr> cx = 200, cy = 80 \<rparr>
     (graphicOptionsOf example_env segment_hooks finished_mark)"
    by (simp add: onShape_def graphicOptionsOf_def example_defs finished_mark_def
          segment_hooks_def toXyPoint_def timestampOrDataIndexToPointX_def defaultEmpty_def)
  have hyp: "(1::nat) < length (tpPoints finished_mark) \<and> tpPoints finished_mark ! 1 = Some ?p1 \<and>
      onPoint example_env \<lparr> cx = 200, cy = 80 \<rparr> ?p1 \<and>
      (\<forall>j<1. \<exists>q. tpPoints finished_mark ! j = Some q \<and> \<not> onPoint example_env \<lparr> cx = 200, cy = 80 \<rparr> q)"
    by (simp add: onPoint_def example_defs finished_mark_def segment_hooks_def toXyPoint_def timestampOrDataIndexToPointX_def)
  have mem: "Some ?p0 \<in> set (tpPoints finished_mark)" by (simp add: finished_mark_def)
  from point_hit_wins [of 1 finished_mark ?p1 example_env "\<lparr> cx = 200, cy = 80 \<rparr>" segment_hooks]
       point_hit_wins [of 0 finished_mark ?p0 example_env "\<lparr> cx = 150, cy = 65 \<rparr>" segment_hooks
                          "Some True" "finished_mark\<lparr> hoverType := OTHER, hoverIndex := 0 \<rparr>"]
       hyp other shape mem
  show ?thesis by simp
qed

lemma checkPoints_miss:
  "list_all (\<lambda>s. case s of None \<Rightarrow> False | Some q \<Rightarrow> \<not> onPoint env mp q) ps \<Longrightarrow>
   checkPoints env mp ps i acc = PointMiss (acc @ map (\<lambda>s. toXyPoint env (the s)) ps)"
proof (induction ps arbitrary: i acc)
  case Nil
  then show ?case by simp
next
  case (Cons s ps)
  then obtain q where q: "s = Some q" "\<not> onPoint env mp q" by (cases s) auto
  then show ?case using Cons by (simp add: onPoint_def)
qed

lemma all_placed_xy:
  "list_all (\<lambda>s. case s of None \<Rightarrow> False | Some q \<Rightarrow> P q) ps \<Longrightarrow>
   map Some (map (\<lambda>s. toXyPoint env (the s)) ps) = map (map_option (toXyPoint env)) ps"
  by (induction ps) (auto split: option.splits)

lemma checkDataSource_None:
  "(checkDataSource h mp ds i = None) = (\<not> list_ex (\<lambda>d. checkMousePointOn h d mp) ds)"
  by (induction ds arbitrary: i) auto

lemma checkDataSource_Some:
  "checkDataSource h mp ds i = Some k \<Longrightarrow> list_ex (\<lambda>d. checkMousePointOn h d mp) ds"
  using checkDataSource_None [of h mp ds i] by auto

lemma checkGraphicOptions_miss:
  "checkedDataSources gs \<Longrightarrow>
   (checkGraphicOptions h mp gs = Inr None) = (\<not> onShape h mp gs)"
proof (induction gs)
  case Nil
  then show ?case by (simp add: onShape_def)
next
  case (Cons g gs)
  then have IH: "(checkGraphicOptions h mp gs = Inr None) = (\<not> onShape h mp gs)"
    by (simp add: checkedDataSources_def)
  have ok: "isCheck g = Some True \<Longrightarrow> dataSource g \<noteq> Null"
    using Cons.prems by (simp add: checkedDataSources_def)
  show ?case
  proof (cases "isCheck g = Some True")
    case False
    then show ?thesis using IH by (simp add: onShape_def)
  next
    case True
    then show ?thesis
      using IH ok
      by (cases "dataSource g")
         (auto simp: onShape_def defaultEmpty_def checkDataSource_None
               dest: checkDataSource_Some split: option.splits)
  qed
qed

lemma checkGraphicOptions_hit:
  "checkedDataSources gs \<Longrightarrow> onShape h mp gs \<Longrightarrow>
   \<exists>i. checkGraphicOptions h mp gs = Inr (Some i)"
proof (induction gs)
  case Nil
  then show ?case by (simp add: onShape_def)
next
  case (Cons g gs)
  have ok: "isCheck g = Some True \<Longrightarrow> dataSource g \<noteq> Null"
    using Cons.prems(1) by (simp add: checkedDataSources_def)
  have rest: "checkedDataSources gs" using Cons.prems(1) by (simp add: checkedDataSources_def)
  show ?case
  proof (cases "isCheck g = Some True")
    case False
    then have "onShape h mp gs" using Cons.prems(2) by (simp add: onShape_def)
    then show ?thesis using Cons.IH rest False by simp
  next
    case True
    show ?thesis
    proof (cases "checkDataSource h mp
                    (case defaultEmpty (dataSource g) of
                       Defined ds \<Rightarrow> ds | Null \<Rightarrow> [] | Undefined \<Rightarrow> []) 0")
      case (Some i)
      then show ?thesis using True ok
        by (cases "dataSource g") (auto simp: defaultEmpty_def)
    next
      case None
      then have "onShape h mp gs"
        using Cons.prems(2) True by (simp add: onShape_def checkDataSource_None)
      then obtain i where "checkGraphicOptions h mp gs = Inr (Some i)"
        using Cons.IH rest by blast
      then show ?thesis using True ok None
        by (cases "dataSource g") (auto simp: defaultEmpty_def)
    qed
  qed
qed

text \<open>
  Where every slot holds a point, no checked group has \<open>null\<close> for its data source
  and the pixel is on no placed point: on no derived shape either, the call resets the
  hover type to NONE and the hover index to -1 and ends without a return value; on a
  derived shape, it returns true with hover type OTHER. A call that returns has either
  returned true with POINT or OTHER set, or returned nothing with the hover reset.
\<close>

lemma no_match_resets:
  "(list_all (\<lambda>s. case s of None \<Rightarrow> False | Some q \<Rightarrow> \<not> onPoint env mp q) (tpPoints m) \<and>
    checkedDataSources (graphicOptionsOf env h m) \<longrightarrow>
      (\<not> onShape h mp (graphicOptionsOf env h m) \<longrightarrow>
         checkMousePointOnGraphic env h mp m =
           Inr (None, m\<lparr> hoverType := NONE, hoverIndex := - 1 \<rparr>)) \<and>
      (onShape h mp (graphicOptionsOf env h m) \<longrightarrow>
         (\<exists>i. checkMousePointOnGraphic env h mp m =
                Inr (Some True, m\<lparr> hoverType := OTHER, hoverIndex := int i \<rparr>)))) \<and>
   (checkMousePointOnGraphic env h mp m = Inr (r, m') \<longrightarrow>
      (r = Some True \<and> (hoverType m' = POINT \<or> hoverType m' = OTHER)) \<or>
      (r = None \<and> hoverType m' = NONE \<and> hoverIndex m' = - 1))"
proof (intro conjI impI)
  assume a: "list_all (\<lambda>s. case s of None \<Rightarrow> False | Some q \<Rightarrow> \<not> onPoint env mp q) (tpPoints m) \<and>
    checkedDataSources (graphicOptionsOf env h m)"
  have scan: "checkPoints env mp (tpPoints m) 0 [] =
                PointMiss (map (\<lambda>s. toXyPoint env (the s)) (tpPoints m))"
    using a checkPoints_miss [of env mp "tpPoints m" 0 "[]"] by simp
  have xy: "map Some (map (\<lambda>s. toXyPoint env (the s)) (tpPoints m)) =
            map (map_option (toXyPoint env)) (tpPoints m)"
    using a by (intro all_placed_xy) auto
  have unfold: "checkMousePointOnGraphic env h mp m =
     (case checkGraphicOptions h mp (graphicOptionsOf env h m) of
        Inl e \<Rightarrow> Inl e
      | Inr (Some i) \<Rightarrow> Inr (Some True, m\<lparr> hoverType := OTHER, hoverIndex := int i \<rparr>)
      | Inr None \<Rightarrow> Inr (None, resetHoverParams m))"
    unfolding checkMousePointOnGraphic_def scan
    by (simp add: xy graphicOptionsOf_def Let_def del: map_map)
  {
    assume "\<not> onShape h mp (graphicOptionsOf env h m)"
    then have "checkGraphicOptions h mp (graphicOptionsOf env h m) = Inr None"
      using a by (simp add: checkGraphicOptions_miss)
    then show "checkMousePointOnGraphic env h mp m =
        Inr (None, m\<lparr> hoverType := NONE, hoverIndex := - 1 \<rparr>)"
      using unfold by (simp add: resetHoverParams_def)
  }
  {
    assume "onShape h mp (graphicOptionsOf env h m)"
    then obtain i where "checkGraphicOptions h mp (graphicOptionsOf env h m) = Inr (Some i)"
      using a checkGraphicOptions_hit by blast
    then show "\<exists>i. checkMousePointOnGraphic env h mp m =
                Inr (Some True, m\<lparr> hoverType := OTHER, hoverIndex := int i \<rparr>)"
      using unfold by auto
  }
next
  assume "checkMousePointOnGraphic env h mp m = Inr (r, m')"
  then show "(r = Some True \<and> (hoverType m' = POINT \<or> hoverType m' = OTHER)) \<or>
      (r = None \<and> hoverType m' = NONE \<and> hoverIndex m' = - 1)"
    by (auto simp: checkMousePointOnGraphic_def Let_def resetHoverParams_def
             split: point_scan.splits option.splits sum.splits)
qed

lemma gap_mark_value:
  "gap_mark =
     \<lparr> totalStep = 4, drawStep = - 1,
       tpPoints = [Some \<lparr> timestamp = Some 660000, price = 250, dataIndex = 10 \<rparr>, None,
                   Some \<lparr> timestamp = Some 1860000, price = 180, dataIndex = 30 \<rparr>],
       tpProps = [], hoverType = NONE, hoverIndex = - 1 \<rparr>"
  by (simp add: gap_mark_def placeSteps_def placeStep_def mouseMoves_def placing_defs Let_def
        resolvePoint_def example_env_def)

text \<open>
  C6: on the mark placed with no move in its second step, the slot of the second point
  was never assigned. For the pixel (300, 120), which is on the third point, the loop of
  \<open>checkMousePointOnGraphic\<close> destructures that slot and throws a TypeError before the
  third point is tested: the call neither sets POINT nor returns true. \<open>draw\<close>, going
  through the same array with \<open>map\<close> and \<open>forEach\<close>, skips the slot and draws the two
  placed points.
\<close>

theorem gap_point_hit_throws:
  "tpPoints gap_mark =
     [Some \<lparr> timestamp = Some 660000, price = 250, dataIndex = 10 \<rparr>, None,
      Some \<lparr> timestamp = Some 1860000, price = 180, dataIndex = 30 \<rparr>] \<and>
   onPoint example_env \<lparr> cx = 300, cy = 120 \<rparr>
     \<lparr> timestamp = Some 1860000, price = 180, dataIndex = 30 \<rparr> \<and>
   checkMousePointOnGraphic example_env segment_hooks \<lparr> cx = 300, cy = 120 \<rparr> gap_mark =
     Inl TypeError \<and>
   draw example_env segment_hooks (gap_mark\<lparr> hoverType := POINT, hoverIndex := 2 \<rparr>) [] =
     ([RenderStrokeFillCircle ''#2196F3'' ''#2196F3'' 1 \<lparr> cx = 100, cy = 50 \<rparr> 4,
       RenderStrokeFillCircle ''#2196F3'' ''#2196F3'' 1 \<lparr> cx = 300, cy = 120 \<rparr> 6], None)"
  unfolding gap_mark_value
  by (simp add: checkMousePointOnGraphic_def draw_def onPoint_def example_defs
        segment_hooks_def toXyPoint_def timestampOrDataIndexToPointX_def Let_def
        GRAPHIC_MARK_DRAW_STEP_START_def)


section \<open>Properties of DrawWidget\<close>

lemmas widget_defs = example_canvas_def example_widget_def example_host_def
  example_container_def same_size_def wider_size_def DEFAULT_REQUEST_ID_def exact_ops_def

lemma onePending_cases:
  "onePending (w, host) \<Longrightarrow>
   pending host = [] \<or>
   (\<exists>cb. pending host = [(requestAnimationId w, cb)] \<and> requestAnimationId w \<noteq> DEFAULT_REQUEST_ID)"
  unfolding onePending_def
  by (cases "pending host"; cases "tl (pending host)") auto

lemma optimalUpdate_pair:
  assumes "onePending (w, host)"
  shows "pending (snd (optimalUpdate cb (w, host))) =
           [(requestAnimationId (fst (optimalUpdate cb (w, host))), cb)]"
proof -
  from onePending_cases [OF assms]
  have "filter (\<lambda>(i, cb). i \<noteq> requestAnimationId w) (pending host) = [] \<and>
        (requestAnimationId w = DEFAULT_REQUEST_ID \<longrightarrow> pending host = [])"
    by auto
  then show ?thesis
    by (simp add: optimalUpdate_def requestAnimationFrame_def cancelAnimationFrame_def Let_def)
qed

lemma optimalUpdate_handle:
  "requestAnimationId (fst (optimalUpdate cb st)) \<noteq> DEFAULT_REQUEST_ID"
  by (simp add: optimalUpdate_def requestAnimationFrame_def Let_def DEFAULT_REQUEST_ID_def)

lemma optimalUpdate_pending:
  assumes "onePending st"
  shows "pending (snd (optimalUpdate cb st)) = [(requestAnimationId (fst (optimalUpdate cb st)), cb)]"
    and "requestAnimationId (fst (optimalUpdate cb st)) \<noteq> DEFAULT_REQUEST_ID"
  using assms optimalUpdate_pair [of "fst st" "snd st" cb] optimalUpdate_handle [of cb st]
  by simp_all

lemma onePending_same_handle:
  "requestAnimationId w' = requestAnimationId w \<Longrightarrow> onePending (w', host) = onePending (w, host)"
  by (simp add: onePending_def split: list.splits)

lemma updateImp_pending:
  assumes "onePending st"
  shows "pending (snd (snd (updateImp ops pr level container bnd st))) =
           [(requestAnimationId (fst (snd (updateImp ops pr level container bnd st))),
             levelRedraw (impliedLevel (level, container, bnd)))] \<and>
         requestAnimationId (fst (snd (updateImp ops pr level container bnd st))) \<noteq> DEFAULT_REQUEST_ID"
proof -
  have A: "\<And>(w2 :: draw_widget) cb. requestAnimationId w2 = requestAnimationId (fst st) \<Longrightarrow>
      pending (snd (optimalUpdate cb (w2, snd st))) =
        [(requestAnimationId (fst (optimalUpdate cb (w2, snd st))), cb)] \<and>
      requestAnimationId (fst (optimalUpdate cb (w2, snd st))) \<noteq> DEFAULT_REQUEST_ID"
  proof -
    fix w2 :: draw_widget and cb assume "requestAnimationId w2 = requestAnimationId (fst st)"
    then have "onePending (w2, snd st)"
      using assms onePending_same_handle [of w2 "fst st" "snd st"] by simp
    then show "pending (snd (optimalUpdate cb (w2, snd st))) =
        [(requestAnimationId (fst (optimalUpdate cb (w2, snd st))), cb)] \<and>
      requestAnimationId (fst (optimalUpdate cb (w2, snd st))) \<noteq> DEFAULT_REQUEST_ID"
      using optimalUpdate_pending by blast
  qed
  show ?thesis
    unfolding updateImp_def impliedLevel_def Let_def
    by (cases level) (simp_all add: A)
qed

lemma updateImp_onePending:
  "onePending st \<Longrightarrow> onePending (snd (updateImp ops pr level container bnd st))"
  using updateImp_pending [of st ops pr level container bnd]
  by (simp add: onePending_def)

lemma updateImps_trace_onePending:
  "onePending st \<Longrightarrow> list_all onePending (updateImps_trace ops pr calls st)"
proof (induction calls arbitrary: st)
  case Nil
  then show ?case by simp
next
  case (Cons call calls)
  obtain level container bnd where call: "call = (level, container, bnd)" by (cases call)
  show ?case using Cons call by (simp add: updateImp_onePending)
qed

lemma onePending_length: "onePending st \<Longrightarrow> length (pending (snd st)) \<le> 1"
  by (auto simp: onePending_def split: list.splits)

lemma updateImps_last:
  "onePending st \<Longrightarrow> calls \<noteq> [] \<Longrightarrow>
   pending (snd (updateImps ops pr calls st)) =
     [(requestAnimationId (fst (updateImps ops pr calls st)), levelRedraw (impliedLevel (last calls)))]"
proof (induction calls arbitrary: st)
  case Nil
  then show ?case by simp
next
  case (Cons call calls)
  obtain level container bnd where call: "call = (level, container, bnd)" by (cases call)
  let ?st1 = "snd (updateImp ops pr level container bnd st)"
  have one: "onePending ?st1" using Cons.prems(1) by (rule updateImp_onePending)
  show ?case
  proof (cases "calls = []")
    case True
    then show ?thesis
      using call updateImp_pending [OF Cons.prems(1), of ops pr level container bnd] by simp
  next
    case False
    then show ?thesis using Cons.IH [OF one False] call by simp
  qed
qed

text \<open>
  C4: from a state in which the widget holds at most one pending handle, any non-empty
  sequence of \<open>updateImp\<close> calls with no frame fired in between keeps at most one
  callback pending after every call; after the last call the one pending callback is
  the redraw of the level that call implies (DRAWER where its bounding differs in size
  from the container), and the next frame runs exactly that one callback.
\<close>

theorem coalescing:
  "onePending st \<Longrightarrow> calls \<noteq> [] \<Longrightarrow>
   list_all (\<lambda>s. length (pending (snd s)) \<le> 1) (updateImps_trace ops pr calls st) \<and>
   pending (snd (updateImps ops pr calls st)) =
     [(requestAnimationId (fst (updateImps ops pr calls st)),
       levelRedraw (impliedLevel (last calls)))] \<and>
   fst (fireFrame (snd (updateImps ops pr calls st))) = [levelRedraw (impliedLevel (last calls))] \<and>
   pending (snd (fireFrame (snd (updateImps ops pr calls st)))) = []"
proof -
  assume one: "onePending st" and ne: "calls \<noteq> []"
  have "list_all onePending (updateImps_trace ops pr calls st)"
    using one by (rule updateImps_trace_onePending)
  then have t: "list_all (\<lambda>s. length (pending (snd s)) \<le> 1) (updateImps_trace ops pr calls st)"
    using onePending_length by (auto simp: list_all_iff)
  have l: "pending (snd (updateImps ops pr calls st)) =
     [(requestAnimationId (fst (updateImps ops pr calls st)),
       levelRedraw (impliedLevel (last calls)))]"
    using one ne by (rule updateImps_last)
  show ?thesis using t l by (simp add: fireFrame_def)
qed

theorem coalescing_witness:
  "onePending (example_widget, example_host) \<and>
   pending (snd (updateImps exact_ops 1.5
       [(Level_MAIN, example_container, same_size), (Level_ALL, example_container, same_size),
        (Level_OVERLAY, example_container, same_size)] (example_widget, example_host))) =
     [(3, [UpdateOverlay])] \<and>
   fst (fireFrame (snd (updateImps exact_ops 1.5
       [(Level_MAIN, example_container, same_size), (Level_ALL, example_container, same_size),
        (Level_OVERLAY, example_container, same_size)] (example_widget, example_host)))) =
     [[UpdateOverlay]] \<and>
   fst (fireFrame (snd (updateImps exact_ops 1.5
       [(Level_ALL, example_container, same_size), (Level_MAIN, example_container, wider_size)]
       (example_widget, example_host)))) =
     [[UpdateMain, UpdateOverlay]]"
proof -
  have one: "onePending (example_widget, example_host)"
    by (simp add: onePending_def example_host_def)
  have id: "requestAnimationId (fst (updateImps exact_ops 1.5
       [(Level_MAIN, example_container, same_size), (Level_ALL, example_container, same_size),
        (Level_OVERLAY, example_container, same_size)] (example_widget, example_host))) = 3"
    by (simp add: updateImp_def optimalUpdate_def requestAnimationFrame_def
          cancelAnimationFrame_def Let_def widget_defs)
  have ne3: "[(Level_MAIN, example_container, same_size), (Level_ALL, example_container, same_size),
        (Level_OVERLAY, example_container, same_size)] \<noteq> []" by simp
  have ne2: "[(Level_ALL, example_container, same_size), (Level_MAIN, example_container, wider_size)] \<noteq> []"
    by simp
  from coalescing [OF one ne3, of exact_ops "1.5"] coalescing [OF one ne2, of exact_ops "1.5"] one id
  show ?thesis by (simp add: impliedLevel_def widget_defs)
qed

text \<open>
  C5: a call whose bounding differs in width or height from the container clears both
  canvases, sets both backing stores to the floor of the product the engine computes for
  size times pixel ratio and the style sizes to the logical size, scales both contexts
  by the pixel ratio and schedules the redraw of both canvases whatever level was
  requested; a call with the size unchanged clears the main canvas unless the level is
  OVERLAY and the overlay canvas unless the level is MAIN, resizes nothing and schedules
  the redraw of the requested level.
\<close>

theorem resize_forces_full_redraw:
  "updateImp ops pr level container bnd (w, host) = (container', w', host') \<Longrightarrow>
   (bounding_width bnd \<noteq> offsetWidth container \<or> bounding_height bnd \<noteq> offsetHeight container \<longrightarrow>
      mainCtx w' = mainCtx w @ [ClearRect 0 0 (offsetWidth (mainCanvas w)) (offsetHeight (mainCanvas w)),
                                Scale pr pr] \<and>
      overlayCtx w' = overlayCtx w @ [ClearRect 0 0 (offsetWidth (overlayCanvas w)) (offsetHeight (overlayCanvas w)),
                                      Scale pr pr] \<and>
      canvas_width (mainCanvas w') = \<lfloor>num_times ops (bounding_width bnd) pr\<rfloor> \<and>
      canvas_height (mainCanvas w') = \<lfloor>num_times ops (bounding_height bnd) pr\<rfloor> \<and>
      canvas_width (overlayCanvas w') = \<lfloor>num_times ops (bounding_width bnd) pr\<rfloor> \<and>
      canvas_height (overlayCanvas w') = \<lfloor>num_times ops (bounding_height bnd) pr\<rfloor> \<and>
      style_width (mainCanvas w') = Some (bounding_width bnd) \<and>
      style_height (mainCanvas w') = Some (bounding_height bnd) \<and>
      style_width (overlayCanvas w') = Some (bounding_width bnd) \<and>
      style_height (overlayCanvas w') = Some (bounding_height bnd) \<and>
      style_width container' = Some (bounding_width bnd) \<and>
      style_height container' = Some (bounding_height bnd) \<and>
      last (pending host') = (requestAnimationId w', [UpdateMain, UpdateOverlay])) \<and>
   (bounding_width bnd = offsetWidth container \<and> bounding_height bnd = offsetHeight container \<longrightarrow>
      mainCtx w' =
        (if level = Level_OVERLAY then mainCtx w
         else mainCtx w @ [ClearRect 0 0 (offsetWidth (mainCanvas w)) (offsetHeight (mainCanvas w))]) \<and>
      overlayCtx w' =
        (if level = Level_MAIN then overlayCtx w
         else overlayCtx w @ [ClearRect 0 0 (offsetWidth (overlayCanvas w)) (offsetHeight (overlayCanvas w))]) \<and>
      mainCanvas w' = mainCanvas w \<and> overlayCanvas w' = overlayCanvas w \<and>
      last (pending host') = (requestAnimationId w', levelRedraw level))"
  unfolding updateImp_def Let_def
  by (cases level)
     (auto simp: optimalUpdate_def requestAnimationFrame_def cancelAnimationFrame_def Let_def)

theorem resize_forces_full_redraw_witness:
  "updateImp exact_ops 1.5 Level_OVERLAY example_container wider_size (example_widget, example_host) =
     (example_container\<lparr> style_width := Some 900.5 \<rparr>,
      example_widget
        \<lparr> mainCanvas := example_canvas\<lparr> style_width := Some 900.5, canvas_width := 1350 \<rparr>,
          mainCtx := [ClearRect 0 0 800 300, Scale 1.5 1.5],
          overlayCanvas := example_canvas\<lparr> style_width := Some 900.5, canvas_width := 1350 \<rparr>,
          overlayCtx := [ClearRect 0 0 800 300, Scale 1.5 1.5],
          requestAnimationId := 1 \<rparr>,
      \<lparr> pending = [(1, [UpdateMain, UpdateOverlay])], lastHandle = 1 \<rparr>) \<and>
   updateImp exact_ops 1.5 Level_OVERLAY example_container same_size (example_widget, example_host) =
     (example_container,
      example_widget\<lparr> overlayCtx := [ClearRect 0 0 800 300], requestAnimationId := 1 \<rparr>,
      \<lparr> pending = [(1, [UpdateOverlay])], lastHandle = 1 \<rparr>) \<and>
   updateImp double_ops ratio_12_11 Level_MAIN example_container widest_size
     (example_widget, example_host) =
     (example_container\<lparr> style_width := Some 1100 \<rparr>,
      example_widget
        \<lparr> mainCanvas := example_canvas
            \<lparr> style_width := Some 1100, canvas_width := 1200, canvas_height := 327 \<rparr>,
          mainCtx := [ClearRect 0 0 800 300, Scale ratio_12_11 ratio_12_11],
          overlayCanvas := example_canvas
            \<lparr> style_width := Some 1100, canvas_width := 1200, canvas_height := 327 \<rparr>,
          overlayCtx := [ClearRect 0 0 800 300, Scale ratio_12_11 ratio_12_11],
          requestAnimationId := 1 \<rparr>,
      \<lparr> pending = [(1, [UpdateMain, UpdateOverlay])], lastHandle = 1 \<rparr>) \<and>
   \<lfloor>1100 * ratio_12_11\<rfloor> = 1199"
proof -
  have c: "updateImp double_ops ratio_12_11 Level_MAIN example_container widest_size
     (example_widget, example_host) =
     (example_container\<lparr> style_width := Some 1100 \<rparr>,
      example_widget
        \<lparr> mainCanvas := example_canvas
            \<lparr> style_width := Some 1100, canvas_width := 1200, canvas_height := 327 \<rparr>,
          mainCtx := [ClearRect 0 0 800 300, Scale ratio_12_11 ratio_12_11],
          overlayCanvas := example_canvas
            \<lparr> style_width := Some 1100, canvas_width := 1200, canvas_height := 327 \<rparr>,
          overlayCtx := [ClearRect 0 0 800 300, Scale ratio_12_11 ratio_12_11],
          requestAnimationId := 1 \<rparr>,
      \<lparr> pending = [(1, [UpdateMain, UpdateOverlay])], lastHandle = 1 \<rparr>)"
    by (simp add: updateImp_def optimalUpdate_def requestAnimationFrame_def
          cancelAnimationFrame_def Let_def example_canvas_def example_widget_def
          example_host_def example_container_def widest_size_def DEFAULT_REQUEST_ID_def
          double_ops_def exact_ops_def ratio_12_11_def)
  have e: "\<lfloor>1100 * ratio_12_11\<rfloor> = 1199"
    by (simp add: ratio_12_11_def)
  have a: "updateImp exact_ops 1.5 Level_OVERLAY example_container wider_size (example_widget, example_host) =
     (example_container\<lparr> style_width := Some 900.5 \<rparr>,
      example_widget
        \<lparr> mainCanvas := example_canvas\<lparr> style_width := Some 900.5, canvas_width := 1350 \<rparr>,
          mainCtx := [ClearRect 0 0 800 300, Scale 1.5 1.5],
          overlayCanvas := example_canvas\<lparr> style_width := Some 900.5, canvas_width := 1350 \<rparr>,
          overlayCtx := [ClearRect 0 0 800 300, Scale 1.5 1.5],
          requestAnimationId := 1 \<rparr>,
      \<lparr> pending = [(1, [UpdateMain, UpdateOverlay])], lastHandle = 1 \<rparr>)"
    by (simp add: updateImp_def optimalUpdate_def requestAnimationFrame_def
          cancelAnimationFrame_def Let_def widget_defs)
  have b: "updateImp exact_ops 1.5 Level_OVERLAY example_container same_size (example_widget, example_host) =
     (example_container,
      example_widget\<lparr> overlayCtx := [ClearRect 0 0 800 300], requestAnimationId := 1 \<rparr>,
      \<lparr> pending = [(1, [UpdateOverlay])], lastHandle = 1 \<rparr>)"
    by (simp add: updateImp_def optimalUpdate_def requestAnimationFrame_def
          cancelAnimationFrame_def Let_def widget_defs)
  from resize_forces_full_redraw [OF a] resize_forces_full_redraw [OF b]
       resize_forces_full_redraw [OF c] a b c e
  show ?thesis by simp
qed

section \<open>Properties of CandleAreaView\<close>

lemmas view_defs = example_view_env_def example_area_styles_def new_CandleAreaView_def
  eachChildren_def eachChild_def MAX_SAFE_INTEGER_def createLinearGradient_def

lemma addColorStops_thrown:
  "addColorStops add stops g0 = (g, Some e) \<Longrightarrow>
   \<exists>added offset color rest.
      stops = added @ (offset, color) # rest \<and>
      addColorStops add added g0 = (g, None) \<and> add g offset color = Inl e"
proof (induction add stops g0 rule: addColorStops.induct)
  case (1 add g)
  then show ?case by simp
next
  case (2 add offset color stops g0)
  show ?case
  proof (cases "add g0 offset color")
    case (Inl e')
    then have "g = g0" "e' = e" using "2.prems" by simp_all
    then have "(offset, color) # stops = [] @ (offset, color) # stops \<and>
               addColorStops add [] g0 = (g, None) \<and> add g offset color = Inl e"
      using Inl by simp
    then show ?thesis by blast
  next
    case (Inr g')
    then have "addColorStops add stops g' = (g, Some e)" using "2.prems" by simp
    from "2.IH" [OF Inr this] obtain added off col rest where
      r: "stops = added @ (off, col) # rest" "addColorStops add added g' = (g, None)"
         "add g off col = Inl e" by blast
    have "(offset, color) # stops = ((offset, color) # added) @ (off, col) # rest \<and>
          addColorStops add ((offset, color) # added) g0 = (g, None) \<and> add g off col = Inl e"
      using r Inr by simp
    then show ?thesis by blast
  qed
qed

text \<open>
  C9: when the area has coordinates, the background is an array of gradient stops and
  adding one of them throws, \<open>drawImp\<close> returns normally: the console gets the one
  line "CandleAreaView " followed by the thrown value, the gradient holding exactly the
  stops added before the throwing one is set as the fill style, the area path is filled,
  and the indicator point and ripple figure are drawn on that context as in any other
  call.
\<close>

theorem gradient_error_contained:
  "0 < length (coordinates (eachChildren env)) \<and>
   area_backgroundColor (areaStyles env) = GradientColors stops \<and>
   addColorStops (addColorStop env) stops
     (createLinearGradient 0 (boundingHeight env) 0 (minY (eachChildren env))) = (g, Some e) \<longrightarrow>
   (\<exists>added offset color rest.
      stops = added @ (offset, color) # rest \<and>
      addColorStops (addColorStop env) added
        (createLinearGradient 0 (boundingHeight env) 0 (minY (eachChildren env))) = (g, None) \<and>
      addColorStop env g offset color = Inl e) \<and>
   snd (snd (drawImp env view ctx console)) = console @ [''CandleAreaView '' @ e] \<and>
   (fst (drawImp env view ctx console), fst (snd (drawImp env view ctx console))) =
     drawPoint env (eachChildren env) view
       (drawFigure
          (createFigure env
             \<lparr> fig_name = ''line'', fig_attrs = LineAttrs (coordinates (eachChildren env)),
               fig_styles = LineStyles (area_lineColor (areaStyles env))
                              (area_lineSize (areaStyles env))
                              (area_smooth (areaStyles env)) \<rparr>) ctx
        @ [SetFillStyle (GradientPaint g), BeginPath,
           MoveTo (areaStartX (eachChildren env)) (boundingHeight env),
           LineTo (cx (hd (coordinates (eachChildren env))))
                  (cy (hd (coordinates (eachChildren env)))),
           PathLineTo (coordinates (eachChildren env)) (area_smooth (areaStyles env)),
           LineTo (cx (last (coordinates (eachChildren env)))) (boundingHeight env),
           ClosePath, Fill])"
proof (intro impI conjI)
  assume a: "0 < length (coordinates (eachChildren env)) \<and>
   area_backgroundColor (areaStyles env) = GradientColors stops \<and>
   addColorStops (addColorStop env) stops
     (createLinearGradient 0 (boundingHeight env) 0 (minY (eachChildren env))) = (g, Some e)"
  then show "\<exists>added offset color rest.
      stops = added @ (offset, color) # rest \<and>
      addColorStops (addColorStop env) added
        (createLinearGradient 0 (boundingHeight env) 0 (minY (eachChildren env))) = (g, None) \<and>
      addColorStop env g offset color = Inl e"
    using addColorStops_thrown by blast
  show "snd (snd (drawImp env view ctx console)) = console @ [''CandleAreaView '' @ e]"
    using a by (simp add: drawImp_def drawArea_def areaColor_def Let_def)
  show "(fst (drawImp env view ctx console), fst (snd (drawImp env view ctx console))) =
     drawPoint env (eachChildren env) view
       (drawFigure
          (createFigure env
             \<lparr> fig_name = ''line'', fig_attrs = LineAttrs (coordinates (eachChildren env)),
               fig_styles = LineStyles (area_lineColor (areaStyles env))
                              (area_lineSize (areaStyles env))
                              (area_smooth (areaStyles env)) \<rparr>) ctx
        @ [SetFillStyle (GradientPaint g), BeginPath,
           MoveTo (areaStartX (eachChildren env)) (boundingHeight env),
           LineTo (cx (hd (coordinates (eachChildren env))))
                  (cy (hd (coordinates (eachChildren env)))),
           PathLineTo (coordinates (eachChildren env)) (area_smooth (areaStyles env)),
           LineTo (cx (last (coordinates (eachChildren env)))) (boundingHeight env),
           ClosePath, Fill])"
    using a by (simp add: drawImp_def drawArea_def areaColor_def fillArea_def Let_def)
qed

theorem gradient_error_contained_witness:
  "drawImp example_view_env new_CandleAreaView [] [] =
     (\<lparr> ripple_figure =
          Some \<lparr> fig_name = ''circle'', fig_attrs = CircleAttrs 30 180 8,
                 fig_styles = FillStyles ''fill'' ''rgba(33, 150, 243, 0.3)'' \<rparr>,
        animationFrameTime = 0, animation = [] \<rparr>,
      [FigureDraw \<lparr> fig_name = ''line'',
                    fig_attrs = LineAttrs [\<lparr> cx = 10, cy = 200 \<rparr>, \<lparr> cx = 30, cy = 180 \<rparr>],
                    fig_styles = LineStyles ''#2196F3'' 2 False \<rparr>,
       SetFillStyle (GradientPaint
         \<lparr> grad_x0 = 0, grad_y0 = 300, grad_x1 = 0, grad_y1 = 180,
           colorStops = [(0, ''rgba(33, 150, 243, 0.01)'')] \<rparr>),
       BeginPath, MoveTo 10 300, LineTo 10 200,
       PathLineTo [\<lparr> cx = 10, cy = 200 \<rparr>, \<lparr> cx = 30, cy = 180 \<rparr>] False,
       LineTo 30 300, ClosePath, Fill,
       FigureDraw \<lparr> fig_name = ''circle'', fig_attrs = CircleAttrs 30 180 4,
                    fig_styles = FillStyles ''fill'' ''#2196F3'' \<rparr>,
       FigureDraw \<lparr> fig_name = ''circle'', fig_attrs = CircleAttrs 30 180 8,
                    fig_styles = FillStyles ''fill'' ''rgba(33, 150, 243, 0.3)'' \<rparr>],
      [''CandleAreaView IndexSizeError''])"
proof -
  let ?g = "\<lparr> grad_x0 = 0, grad_y0 = 300, grad_x1 = 0, grad_y1 = 180,
              colorStops = [(0, ''rgba(33, 150, 243, 0.01)'')] \<rparr>"
  have loc: "eachChildren example_view_env =
     \<lparr> coordinates = [\<lparr> cx = 10, cy = 200 \<rparr>, \<lparr> cx = 30, cy = 180 \<rparr>], minY = 180,
       areaStartX = 10, indicatePointCoordinate = Some \<lparr> cx = 30, cy = 180 \<rparr> \<rparr>"
    by (simp add: view_defs Let_def)
  have hyp: "0 < length (coordinates (eachChildren example_view_env)) \<and>
     area_backgroundColor (areaStyles example_view_env) =
       GradientColors [(0, ''rgba(33, 150, 243, 0.01)''), (1.5, ''rgba(33, 150, 243, 0.2)''),
                       (1, ''rgba(33, 150, 243, 0.4)'')] \<and>
     addColorStops (addColorStop example_view_env)
       [(0, ''rgba(33, 150, 243, 0.01)''), (1.5, ''rgba(33, 150, 243, 0.2)''),
        (1, ''rgba(33, 150, 243, 0.4)'')]
       (createLinearGradient 0 (boundingHeight example_view_env) 0
          (minY (eachChildren example_view_env))) = (?g, Some ''IndexSizeError'')"
    unfolding loc
    by (simp add: example_view_env_def example_area_styles_def createLinearGradient_def)
  from gradient_error_contained [of example_view_env _ ?g "''IndexSizeError''"
         new_CandleAreaView "[]" "[]"] hyp
  have "snd (snd (drawImp example_view_env new_CandleAreaView [] [])) =
          [] @ [''CandleAreaView '' @ ''IndexSizeError''] \<and>
        (fst (drawImp example_view_env new_CandleAreaView [] []),
         fst (snd (drawImp example_view_env new_CandleAreaView [] []))) =
        drawPoint example_view_env (eachChildren example_view_env) new_CandleAreaView
          (drawFigure
             (createFigure example_view_env
                \<lparr> fig_name = ''line'',
                  fig_attrs = LineAttrs (coordinates (eachChildren example_view_env)),
                  fig_styles = LineStyles (area_lineColor (areaStyles example_view_env))
                                 (area_lineSize (areaStyles example_view_env))
                                 (area_smooth (areaStyles example_view_env)) \<rparr>) []
           @ [SetFillStyle (GradientPaint ?g), BeginPath,
              MoveTo (areaStartX (eachChildren example_view_env)) (boundingHeight example_view_env),
              LineTo (cx (hd (coordinates (eachChildren example_view_env))))
                     (cy (hd (coordinates (eachChildren example_view_env)))),
              PathLineTo (coordinates (eachChildren example_view_env))
                (area_smooth (areaStyles example_view_env)),
              LineTo (cx (last (coordinates (eachChildren example_view_env))))
                (boundingHeight example_view_env),
              ClosePath, Fill])"
    by blast
  then have "snd (snd (drawImp example_view_env new_CandleAreaView [] [])) =
          [''CandleAreaView IndexSizeError''] \<and>
        fst (drawImp example_view_env new_CandleAreaView [] []) =
          \<lparr> ripple_figure =
              Some \<lparr> fig_name = ''circle'', fig_attrs = CircleAttrs 30 180 8,
                     fig_styles = FillStyles ''fill'' ''rgba(33, 150, 243, 0.3)'' \<rparr>,
            animationFrameTime = 0, animation = [] \<rparr> \<and>
        fst (snd (drawImp example_view_env new_CandleAreaView [] [])) =
          [FigureDraw \<lparr> fig_name = ''line'',
                    fig_attrs = LineAttrs [\<lparr> cx = 10, cy = 200 \<rparr>, \<lparr> cx = 30, cy = 180 \<rparr>],
                    fig_styles = LineStyles ''#2196F3'' 2 False \<rparr>,
           SetFillStyle (GradientPaint ?g),
           BeginPath, MoveTo 10 300, LineTo 10 200,
           PathLineTo [\<lparr> cx = 10, cy = 200 \<rparr>, \<lparr> cx = 30, cy = 180 \<rparr>] False,
           LineTo 30 300, ClosePath, Fill,
           FigureDraw \<lparr> fig_name = ''circle'', fig_attrs = CircleAttrs 30 180 4,
                        fig_styles = FillStyles ''fill'' ''#2196F3'' \<rparr>,
           FigureDraw \<lparr> fig_name = ''circle'', fig_attrs = CircleAttrs 30 180 8,
                        fig_styles = FillStyles ''fill'' ''rgba(33, 150, 243, 0.3)'' \<rparr>]"
    unfolding loc
    by (simp add: drawPoint_def drawFigure_def example_view_env_def example_area_styles_def
          new_CandleAreaView_def Let_def prod_eq_iff)
  then show ?thesis by (simp add: prod_eq_iff)
qed

end
